theory Spec2Isabelle
  imports Complex_Main
begin

unbundle bit_operations_syntax

section \<open>Python values used by the two scripts\<close>

text \<open>
  The callbacks of the vendor API receive an \<open>error\<close> argument that the scripts only
  test for truth (\<open>if not error\<close>, \<open>if error\<close>). It is modelled as a small
  Python value with Python's truth test.
\<close>

datatype pyval = PyNone | PyBool bool | PyInt int | PyStr string

fun truthy :: "pyval \<Rightarrow> bool" where
  "truthy PyNone = False"
| "truthy (PyBool b) = b"
| "truthy (PyInt i) = (i \<noteq> 0)"
| "truthy (PyStr s) = (s \<noteq> [])"

text \<open>
  Exceptions that the modelled code can raise: \<open>sys.exit()\<close> raises SystemExit,
  \<open>int(nan)\<close> raises ValueError and \<open>int(inf)\<close> raises OverflowError;
  \<open>Process.terminate()\<close> on a process that was never started raises AttributeError,
  and \<open>cv2.circle\<close> raises \<open>cv2.error\<close> when a coordinate of the centre does not fit
  a C int.
\<close>

datatype exn = SystemExit | ValueError | OverflowError | AttributeError | Cv2_error

datatype outcome = Returned | Raised exn

subsection \<open>Floats\<close>

text \<open>
  A Python float is an IEEE binary64 value: a finite number (an exact rational here),
  an infinity or NaN. The sign of zero is not kept: the scripts only test
  \<open>math.isnan\<close>, divide, multiply and truncate. The initial coordinates \<open>(0, 0)\<close>
  are Python ints; \<open>0 / 1280\<close> is float division there too, so the int 0 is \<open>Fin 0\<close>.
\<close>

datatype pyfloat = Fin rat | PInf | NInf | NaN

fun isnan :: "pyfloat \<Rightarrow> bool" where
  "isnan NaN = True"
| "isnan (Fin q) = False"
| "isnan PInf = False"
| "isnan NInf = False"

text \<open>Number of binary digits of a positive integer.\<close>

function bitlen :: "int \<Rightarrow> nat" where
  "bitlen n = (if n \<le> 0 then 0 else Suc (bitlen (n div 2)))"
  by pat_completeness auto
termination
  by (relation "measure nat") auto

declare bitlen.simps [simp del]

definition pow2 :: "int \<Rightarrow> rat" where
  "pow2 k = (if 0 \<le> k then 2 ^ nat k else 1 / 2 ^ nat (- k))"

text \<open>For \<open>q > 0\<close>, the integer \<open>e\<close> with \<open>2^e \<le> q < 2^(e+1)\<close>.\<close>

definition floor_log2 :: "rat \<Rightarrow> int" where
  "floor_log2 q =
     (if 1 \<le> q then int (bitlen \<lfloor>q\<rfloor>) - 1
      else - int (bitlen (\<lceil>1 / q\<rceil> - 1)))"

definition round_half_even :: "rat \<Rightarrow> int" where
  "round_half_even q =
     (let f = \<lfloor>q\<rfloor>; d = q - of_int f
      in if d < 1 / 2 then f
         else if 1 / 2 < d then f + 1
         else if even f then f else f + 1)"

text \<open>
  Rounding of an exact result to binary64, to nearest with ties to even: 53 significant
  bits, the smallest spacing \<open>2^-1074\<close> (subnormals), overflow to an infinity when the
  rounded magnitude reaches \<open>2^1024\<close>, that is when its binary exponent reaches 1024.
\<close>

definition round_double :: "rat \<Rightarrow> pyfloat" where
  "round_double q =
     (if q = 0 then Fin 0
      else
        let a = \<bar>q\<bar>;
            k = max (floor_log2 a - 52) (- 1074);
            r = of_int (round_half_even (a / pow2 k)) * pow2 k
        in if 0 < r \<and> 1024 \<le> floor_log2 r then (if 0 < q then PInf else NInf)
           else Fin (if 0 < q then r else - r))"

text \<open>
  \<open>x / c\<close> and \<open>x * c\<close> for a float \<open>x\<close> and a positive int literal \<open>c\<close>
  (1280, 640, 720 and 360 in the source; each is exactly a double).
\<close>

fun float_div :: "pyfloat \<Rightarrow> int \<Rightarrow> pyfloat" where
  "float_div (Fin q) c = round_double (q / of_int c)"
| "float_div PInf c = PInf"
| "float_div NInf c = NInf"
| "float_div NaN c = NaN"

fun float_mul :: "pyfloat \<Rightarrow> int \<Rightarrow> pyfloat" where
  "float_mul (Fin q) c = round_double (q * of_int c)"
| "float_mul PInf c = PInf"
| "float_mul NInf c = NInf"
| "float_mul NaN c = NaN"

text \<open>Python's \<open>int(x)\<close> on a float truncates towards zero and raises on NaN and infinities.\<close>

definition trunc :: "rat \<Rightarrow> int" where
  "trunc q = (if 0 \<le> q then \<lfloor>q\<rfloor> else \<lceil>q\<rceil>)"

fun py_int :: "pyfloat \<Rightarrow> exn + int" where
  "py_int (Fin q) = Inr (trunc q)"
| "py_int PInf = Inl OverflowError"
| "py_int NInf = Inl OverflowError"
| "py_int NaN = Inl ValueError"

section \<open>Calls into the vendor API, OpenCV and the interpreter\<close>

text \<open>
  The scripts are glue around external libraries. Each call with an effect is recorded as
  an action; a function of the scripts returns the list of actions it performs, in order.
  A call that raises has no effect and is not recorded: the function ends there with the
  exception.
\<close>

type_synonym address = "string \<times> nat"

datatype packet_type = GAZE_IN_IMAGE

datatype camera_resolution = MEDIUM

datatype log_mode = BASIC

text \<open>The callbacks handed to the API: a method of the scripts or \<open>lambda *args: None\<close>.\<close>

datatype callback =
    Lambda_None
  | Handle_connect_response
  | Handle_camera_start_response
  | Handle_gaze_in_image_stream
  | Handle_video_stream

type_synonym colour = "nat list"

type_synonym point = "int \<times> int"

datatype overlay_text = ID_text nat | Gaze_text pyfloat pyfloat

datatype printed =
    Camera_start_error pyval
  | Gaze_coordinates pyfloat pyfloat
  | Plug_in_your_tracker

datatype action =
    FrontendApi
  | Register_stream_handler packet_type callback
  | Api_start callback
  | Set_stream_control packet_type nat callback
  | Start_camera_capture nat camera_resolution bool callback
  | Start_log_session log_mode callback
  | Start_video_stream address callback
  | Stop_video_stream address callback
  | Stop_camera_capture callback
  | Stop_log_session callback
  | Api_shutdown
  | VideoReceiver
  | Add_frame_callback callback
  | Video_receiver_start
  | CentroidTracker
  | Call_is_person_seen nat "pyfloat \<times> pyfloat"
  | Put_text overlay_text point rat colour nat bool
  | Circle point nat colour int
  | Rectangle point point colour nat
  | Imshow string
  | Destroy_all_windows
  | Print printed
  | Process_create string
  | Process_start

section \<open>The Frontend class\<close>

record frontend =
  video_receiver_address :: address
  connected :: bool

subsection \<open>src/eyetracking/pyside.py\<close>

definition pyside_Frontend_init :: "callback \<Rightarrow> address \<Rightarrow> frontend \<times> action list" where
  "pyside_Frontend_init handle_gaze_in_image_stream addr =
     (\<lparr>video_receiver_address = addr, connected = False\<rparr>,
      [FrontendApi,
       Register_stream_handler GAZE_IN_IMAGE handle_gaze_in_image_stream,
       Api_start Handle_connect_response])"

definition pyside_shutdown :: "frontend \<Rightarrow> action list" where
  "pyside_shutdown self =
     [Stop_video_stream (video_receiver_address self) Lambda_None,
      Stop_camera_capture Lambda_None,
      Stop_log_session Lambda_None,
      Api_shutdown]"

definition pyside_handle_connect_response :: "frontend \<Rightarrow> pyval \<Rightarrow> frontend \<times> action list" where
  "pyside_handle_connect_response self error =
     (if \<not> truthy error then
        (self\<lparr>connected := True\<rparr>,
         [Set_stream_control GAZE_IN_IMAGE 125 Lambda_None,
          Start_camera_capture 1 MEDIUM False Handle_camera_start_response,
          Start_log_session BASIC Lambda_None])
      else (self, []))"

definition pyside_handle_camera_start_response :: "frontend \<Rightarrow> pyval \<Rightarrow> action list \<times> outcome" where
  "pyside_handle_camera_start_response self error =
     (if truthy error then
        ([Print (Camera_start_error error)] @ pyside_shutdown self, Raised SystemExit)
      else
        ([Start_video_stream (video_receiver_address self) Lambda_None], Returned))"

subsection \<open>src/eyeware.py\<close>

definition eyeware_Frontend_init :: "callback \<Rightarrow> address \<Rightarrow> frontend \<times> action list" where
  "eyeware_Frontend_init handle_gaze_in_image_stream addr =
     (\<lparr>video_receiver_address = addr, connected = False\<rparr>,
      [FrontendApi,
       Register_stream_handler GAZE_IN_IMAGE handle_gaze_in_image_stream,
       Api_start Handle_connect_response])"

definition eyeware_shutdown :: "frontend \<Rightarrow> action list" where
  "eyeware_shutdown self =
     [Stop_video_stream (video_receiver_address self) Lambda_None,
      Stop_camera_capture Lambda_None,
      Stop_log_session Lambda_None,
      Api_shutdown]"

definition eyeware_handle_connect_response :: "frontend \<Rightarrow> pyval \<Rightarrow> frontend \<times> action list" where
  "eyeware_handle_connect_response self error =
     (if \<not> truthy error then
        (self\<lparr>connected := True\<rparr>,
         [Set_stream_control GAZE_IN_IMAGE 125 Lambda_None,
          Start_camera_capture 1 MEDIUM False Handle_camera_start_response,
          Start_log_session BASIC Lambda_None])
      else (self, []))"

definition eyeware_handle_camera_start_response :: "frontend \<Rightarrow> pyval \<Rightarrow> action list \<times> outcome" where
  "eyeware_handle_camera_start_response self error =
     (if truthy error then
        ([Print (Camera_start_error error)] @ eyeware_shutdown self, Raised SystemExit)
      else
        ([Start_video_stream (video_receiver_address self) Lambda_None], Returned))"

section \<open>The GazeViewer class\<close>

text \<open>
  \<open>_gaze_coordinates\<close> is a pair: the tuple \<open>(0, 0)\<close> at first, then the list
  \<open>[gaze_img_x, gaze_img_y]\<close>; the code reads it by the indices 0 and 1 only.
\<close>

record gaze_viewer =
  frontend :: frontend
  gaze_coordinates :: "pyfloat \<times> pyfloat"

text \<open>
  The frame decoded by \<open>cv2.imdecode\<close> from the buffer that the video receiver delivers.
  Decoding is OpenCV's; the handlers take the decoded frame as their input.
\<close>

record image =
  img_width :: nat
  img_height :: nat

text \<open>
  The key code returned by \<open>cv2.waitKey(1)\<close> (\<open>-1\<close> when no key was pressed) is an input of
  the frame handlers; \<open>ord('q')\<close> is 113.
\<close>

definition q_pressed :: "int \<Rightarrow> bool" where
  "q_pressed key = (key AND 255 = 113)"

subsection \<open>src/eyetracking/pyside.py\<close>

definition pyside_MARKER_SIZE :: nat where "pyside_MARKER_SIZE = 20"
definition pyside_MARKER_COLOR :: colour where "pyside_MARKER_COLOR = [0, 250, 50]"
definition pyside_SECONDARY_MARKER_SIZE :: nat where "pyside_SECONDARY_MARKER_SIZE = 200"
definition pyside_SECONDARY_MARKER_COLOR :: colour where "pyside_SECONDARY_MARKER_COLOR = [250, 0, 0, 64]"
definition pyside_FONT_SCALE :: rat where "pyside_FONT_SCALE = 1"
definition pyside_TEXT_ORG :: point where "pyside_TEXT_ORG = (50, 50)"
definition pyside_TEXT_COLOR :: colour where "pyside_TEXT_COLOR = [0, 0, 255]"
definition pyside_TEXT_THICKNESS :: nat where "pyside_TEXT_THICKNESS = 2"

definition pyside_GazeViewer_init :: "address \<Rightarrow> gaze_viewer \<times> action list" where
  "pyside_GazeViewer_init video_receiver_addr =
     (let (fe, acts) = pyside_Frontend_init Handle_gaze_in_image_stream video_receiver_addr
      in (\<lparr>frontend = fe, gaze_coordinates = (Fin 0, Fin 0)\<rparr>,
          [VideoReceiver, Add_frame_callback Handle_video_stream, Video_receiver_start] @ acts))"

definition pyside_close :: "gaze_viewer \<Rightarrow> action list" where
  "pyside_close self = pyside_shutdown (frontend self) @ [Destroy_all_windows]"

definition pyside_handle_video_stream :: "gaze_viewer \<Rightarrow> image \<Rightarrow> int \<Rightarrow> action list \<times> outcome" where
  "pyside_handle_video_stream self frame key =
     (let (gx, gy) = gaze_coordinates self
      in ([Put_text (Gaze_text gx gy) pyside_TEXT_ORG pyside_FONT_SCALE pyside_TEXT_COLOR
             pyside_TEXT_THICKNESS True,
           Imshow ''preview'']
          @ (if q_pressed key then pyside_close self else [])
          @ [Print (Gaze_coordinates gx gy)],
          Returned))"

definition pyside_handle_gaze_in_image_stream ::
    "gaze_viewer \<Rightarrow> pyfloat \<Rightarrow> pyfloat \<Rightarrow> pyfloat \<Rightarrow> pyfloat list \<Rightarrow> gaze_viewer" where
  "pyside_handle_gaze_in_image_stream self timestamp gaze_img_x gaze_img_y args =
     self\<lparr>gaze_coordinates := (gaze_img_x, gaze_img_y)\<rparr>"

subsection \<open>src/eyeware.py\<close>

definition eyeware_MARKER_SIZE :: nat where "eyeware_MARKER_SIZE = 5"
definition eyeware_MARKER_COLOR :: colour where "eyeware_MARKER_COLOR = [0, 250, 50]"
definition eyeware_SECONDARY_MARKER_SIZE :: nat where "eyeware_SECONDARY_MARKER_SIZE = 20"
definition eyeware_SECONDARY_MARKER_COLOR :: colour where "eyeware_SECONDARY_MARKER_COLOR = [250, 0, 0, 64]"
definition eyeware_FONT_SCALE :: rat where "eyeware_FONT_SCALE = 1 / 2"
definition eyeware_TEXT_ORG :: point where "eyeware_TEXT_ORG = (50, 50)"
definition eyeware_TEXT_COLOR :: colour where "eyeware_TEXT_COLOR = [0, 0, 255]"
definition eyeware_TEXT_THICKNESS :: nat where "eyeware_TEXT_THICKNESS = 2"

text \<open>
  A tracked person as \<open>self.ct.update(results)\<close> returns it. The class is defined in the
  module \<open>Pedestrian_tracking\<close>; the frame handler reads the attributes below and nothing
  else, so they are taken as given: \<open>centroid\<close> (indices 0 and 1), \<open>rect[1]\<close> (indices 0
  to 3), the attribute \<open>is_seen\<close>, the result of the call \<open>is_person_seen(gaze)\<close> and the
  truth value of the attribute \<open>is_person_close\<close>. The centroid and the rectangle are
  pixel coordinates of the detector in the frame resized to a width of 640.
\<close>

record person =
  centroid :: point
  rect_1 :: "int \<times> int \<times> int \<times> int"
  is_seen :: bool
  is_person_seen :: "pyfloat \<times> pyfloat \<Rightarrow> bool"
  is_person_close :: bool

definition rect_top_left :: "person \<Rightarrow> point" where
  "rect_top_left p = (case rect_1 p of (x0, y0, x1, y1) \<Rightarrow> (x0, y0))"

definition rect_bottom_right :: "person \<Rightarrow> point" where
  "rect_bottom_right p = (case rect_1 p of (x0, y0, x1, y1) \<Rightarrow> (x1, y1))"

text \<open>The module-level variable \<open>play_sound\<close> of src/eyeware.py.\<close>

record eyeware_globals =
  play_sound :: bool

definition eyeware_GazeViewer_init :: "address \<Rightarrow> gaze_viewer \<times> action list" where
  "eyeware_GazeViewer_init video_receiver_addr =
     (let (fe, acts) = eyeware_Frontend_init Handle_gaze_in_image_stream video_receiver_addr
      in (\<lparr>frontend = fe, gaze_coordinates = (Fin 0, Fin 0)\<rparr>,
          [VideoReceiver, Add_frame_callback Handle_video_stream, Video_receiver_start] @ acts
          @ [CentroidTracker]))"

definition eyeware_close :: "gaze_viewer \<Rightarrow> action list" where
  "eyeware_close self = eyeware_shutdown (frontend self) @ [Destroy_all_windows]"

text \<open>
  The body of the loop over \<open>objects.items()\<close>. Its second argument and second result
  are the variable \<open>play_sound\<close> of the handler: the handler assigns it without a
  \<open>global\<close> declaration, so it is a local variable of the handler. The call
  \<open>person.is_person_seen(self._gaze_coordinates)\<close>, made only when \<open>is_seen\<close> is false,
  is recorded with its argument.
\<close>

definition eyeware_loop_body ::
    "pyfloat \<times> pyfloat \<Rightarrow> bool \<Rightarrow> nat \<times> person \<Rightarrow> action list \<times> bool" where
  "eyeware_loop_body gaze local_play_sound item =
     (case item of (objectID, person) \<Rightarrow>
        (let label =
               [Put_text (ID_text objectID) (fst (centroid person) - 10, snd (centroid person) - 10)
                  (1 / 2) [0, 255, 0] 2 False,
                Circle (centroid person) 4 [0, 255, 0] (- 1)];
             p0 = rect_top_left person;
             p1 = rect_bottom_right person
         in if is_seen person then
              (label @ [Rectangle p0 p1 [0, 255, 0] 2], local_play_sound)
            else if \<not> is_person_seen person gaze then
              (if is_person_close person then
                 (label @ [Call_is_person_seen objectID gaze, Rectangle p0 p1 [255, 0, 0] 2], True)
               else
                 (label @ [Call_is_person_seen objectID gaze, Rectangle p0 p1 [255, 255, 0] 2],
                  local_play_sound))
            else
              (label @ [Call_is_person_seen objectID gaze, Rectangle p0 p1 [0, 255, 0] 2],
               local_play_sound)))"

fun eyeware_loop ::
    "pyfloat \<times> pyfloat \<Rightarrow> bool \<Rightarrow> (nat \<times> person) list \<Rightarrow> action list \<times> bool" where
  "eyeware_loop gaze local_play_sound [] = ([], local_play_sound)"
| "eyeware_loop gaze local_play_sound (item # items) =
     (let (acts, ps) = eyeware_loop_body gaze local_play_sound item;
          (acts', ps') = eyeware_loop gaze ps items
      in (acts @ acts', ps'))"

text \<open>
  \<open>fixed_gaze_coords\<close>: the two \<open>int(...)\<close> calls, evaluated left to right.
\<close>

definition fixed_gaze_coords :: "pyfloat \<times> pyfloat \<Rightarrow> exn + point" where
  "fixed_gaze_coords gaze =
     (case py_int (float_mul (float_div (fst gaze) 1280) 640) of
        Inl e \<Rightarrow> Inl e
      | Inr px \<Rightarrow>
          (case py_int (float_mul (float_div (snd gaze) 720) 360) of
             Inl e \<Rightarrow> Inl e
           | Inr py \<Rightarrow> Inr (px, py)))"

text \<open>
  \<open>cv2.circle\<close> takes the centre as two C ints (32 bits, signed).
\<close>

definition in_c_int :: "int \<Rightarrow> bool" where
  "in_c_int n = (- (2 ^ 31) \<le> n \<and> n < 2 ^ 31)"

text \<open>
  The frame handler. \<open>frame\<close> is the decoded frame and \<open>objects\<close> what
  \<open>self.ct.update(pedestrian_detection(imutils.resize(image, width=640), ...))\<close> returns,
  as the list of its items in iteration order; \<open>key\<close> is the result of \<open>cv2.waitKey(1)\<close>.
  The first marker circle is the first call that gets \<open>fixed_gaze_coords\<close>: when a
  coordinate does not fit a C int it raises, and neither circle is drawn nor the frame
  displayed.
\<close>

definition eyeware_handle_video_stream ::
    "gaze_viewer \<Rightarrow> image \<Rightarrow> (nat \<times> person) list \<Rightarrow> int \<Rightarrow> action list \<times> outcome" where
  "eyeware_handle_video_stream self frame objects key =
     (let gaze = gaze_coordinates self;
          (drawn, local_play_sound) = eyeware_loop gaze False objects;
          overlay = [Put_text (Gaze_text (fst gaze) (snd gaze)) eyeware_TEXT_ORG eyeware_FONT_SCALE
                    eyeware_TEXT_COLOR eyeware_TEXT_THICKNESS True];
          shown = [Imshow ''preview''] @ (if q_pressed key then eyeware_close self else [])
      in if \<not> (isnan (fst gaze) \<or> isnan (snd gaze)) then
           (case fixed_gaze_coords gaze of
              Inl e \<Rightarrow> (drawn @ overlay, Raised e)
            | Inr c \<Rightarrow>
                if in_c_int (fst c) \<and> in_c_int (snd c) then
                  (drawn @ overlay
                   @ [Circle c eyeware_MARKER_SIZE eyeware_MARKER_COLOR 2,
                      Circle c eyeware_SECONDARY_MARKER_SIZE eyeware_SECONDARY_MARKER_COLOR 2]
                   @ shown,
                   Returned)
                else (drawn @ overlay, Raised Cv2_error))
         else (drawn @ overlay @ shown, Returned))"

definition eyeware_handle_gaze_in_image_stream ::
    "gaze_viewer \<Rightarrow> pyfloat \<Rightarrow> pyfloat \<Rightarrow> pyfloat \<Rightarrow> pyfloat list \<Rightarrow> gaze_viewer" where
  "eyeware_handle_gaze_in_image_stream self timestamp gaze_img_x gaze_img_y args =
     self\<lparr>gaze_coordinates := (gaze_img_x, gaze_img_y)\<rparr>"

text \<open>
  \<open>play_warning_sound\<close> builds a process object and starts it when the module-level
  \<open>play_sound\<close> is true. Otherwise it calls \<open>p.terminate()\<close> on the process it has just
  built and never started, and that call raises AttributeError.
\<close>

definition play_warning_sound :: "eyeware_globals \<Rightarrow> action list \<times> outcome" where
  "play_warning_sound g =
     (if play_sound g then
        ([Process_create ''/sound/soundeffect.mp3'', Process_start], Returned)
      else
        ([Process_create ''/sound/soundeffect.mp3''], Raised AttributeError))"

section \<open>The programs\<close>

text \<open>
  \<open>main\<close> builds the viewer and then waits in \<open>while not main_window.connected: pass\<close>,
  which only reads the flag. The libraries call the handlers; a run of a program is the
  list of the calls they make, each with the arguments it delivers. The handlers alone
  change the viewer. A call that raises ends there: the run keeps the actions it did
  before, and the fields of the viewer are as the call left them.
\<close>

datatype 'f event =
    Connect_response pyval
  | Camera_start_response pyval
  | Gaze_in_image pyfloat pyfloat pyfloat "pyfloat list"
  | Video_frame 'f

subsection \<open>src/eyetracking/pyside.py\<close>

definition pyside_main :: "address \<Rightarrow> gaze_viewer \<times> action list" where
  "pyside_main video_receiver_addr =
     (let (main_window, acts) = pyside_GazeViewer_init video_receiver_addr
      in (main_window, acts @ [Print Plug_in_your_tracker]))"

fun pyside_deliver :: "gaze_viewer \<Rightarrow> (image \<times> int) event \<Rightarrow> gaze_viewer \<times> action list" where
  "pyside_deliver self (Connect_response error) =
     (let (fe, acts) = pyside_handle_connect_response (frontend self) error
      in (self\<lparr>frontend := fe\<rparr>, acts))"
| "pyside_deliver self (Camera_start_response error) =
     (self, fst (pyside_handle_camera_start_response (frontend self) error))"
| "pyside_deliver self (Gaze_in_image timestamp x y args) =
     (pyside_handle_gaze_in_image_stream self timestamp x y args, [])"
| "pyside_deliver self (Video_frame f) =
     (self, fst (pyside_handle_video_stream self (fst f) (snd f)))"

fun pyside_run :: "gaze_viewer \<Rightarrow> (image \<times> int) event list \<Rightarrow> gaze_viewer \<times> action list" where
  "pyside_run self [] = (self, [])"
| "pyside_run self (e # es) =
     (let (self', acts) = pyside_deliver self e;
          (self'', acts') = pyside_run self' es
      in (self'', acts @ acts'))"

subsection \<open>src/eyeware.py\<close>

text \<open>
  The state of the detector variant is its module-level variable and the viewer.
  \<open>main\<close> calls \<open>play_warning_sound\<close> once, right after building the viewer and
  outside its \<open>try\<close> block: an exception of that call ends \<open>main\<close> before it prints.
  The outcome of \<open>eyeware_main\<close> is that exception, or \<open>Returned\<close> when \<open>main\<close> reaches
  its wait loop. The library threads that call the handlers are started by the
  constructor of the viewer, before \<open>play_warning_sound\<close> is called.
\<close>

type_synonym eyeware_state = "eyeware_globals \<times> gaze_viewer"

type_synonym eyeware_frame = "image \<times> (nat \<times> person) list \<times> int"

definition eyeware_main :: "address \<Rightarrow> eyeware_state \<times> action list \<times> outcome" where
  "eyeware_main video_receiver_addr =
     (let g = \<lparr>play_sound = False\<rparr>;
          (main_window, acts) = eyeware_GazeViewer_init video_receiver_addr;
          (sound_acts, sound_outcome) = play_warning_sound g
      in case sound_outcome of
           Raised e \<Rightarrow> ((g, main_window), acts @ sound_acts, Raised e)
         | Returned \<Rightarrow>
             ((g, main_window), acts @ sound_acts @ [Print Plug_in_your_tracker], Returned))"

fun eyeware_deliver :: "eyeware_state \<Rightarrow> eyeware_frame event \<Rightarrow> eyeware_state \<times> action list" where
  "eyeware_deliver (g, self) (Connect_response error) =
     (let (fe, acts) = eyeware_handle_connect_response (frontend self) error
      in ((g, self\<lparr>frontend := fe\<rparr>), acts))"
| "eyeware_deliver (g, self) (Camera_start_response error) =
     ((g, self), fst (eyeware_handle_camera_start_response (frontend self) error))"
| "eyeware_deliver (g, self) (Gaze_in_image timestamp x y args) =
     ((g, eyeware_handle_gaze_in_image_stream self timestamp x y args), [])"
| "eyeware_deliver (g, self) (Video_frame f) =
     ((g, self),
      fst (eyeware_handle_video_stream self (fst f) (fst (snd f)) (snd (snd f))))"

fun eyeware_run :: "eyeware_state \<Rightarrow> eyeware_frame event list \<Rightarrow> eyeware_state \<times> action list" where
  "eyeware_run st [] = (st, [])"
| "eyeware_run st (e # es) =
     (let (st', acts) = eyeware_deliver st e;
          (st'', acts') = eyeware_run st' es
      in (st'', acts @ acts'))"

section \<open>Reading a list of actions\<close>

fun is_rectangle :: "action \<Rightarrow> bool" where
  "is_rectangle (Rectangle p0 p1 c t) = True"
| "is_rectangle a = False"

fun is_circle :: "action \<Rightarrow> bool" where
  "is_circle (Circle c r col t) = True"
| "is_circle a = False"

fun is_call_is_person_seen :: "action \<Rightarrow> bool" where
  "is_call_is_person_seen (Call_is_person_seen i g) = True"
| "is_call_is_person_seen a = False"

fun rectangle_colours :: "action list \<Rightarrow> colour list" where
  "rectangle_colours [] = []"
| "rectangle_colours (Rectangle p0 p1 c t # as) = c # rectangle_colours as"
| "rectangle_colours (a # as) = rectangle_colours as"

fun gaze_overlays :: "action list \<Rightarrow> (pyfloat \<times> pyfloat) list" where
  "gaze_overlays [] = []"
| "gaze_overlays (Put_text (Gaze_text x y) org scale c t aa # as) = (x, y) # gaze_overlays as"
| "gaze_overlays (a # as) = gaze_overlays as"

text \<open>The coordinates of the last gaze packet of a run, \<open>d\<close> when it has none.\<close>

fun latest_gaze :: "pyfloat \<times> pyfloat \<Rightarrow> 'f event list \<Rightarrow> pyfloat \<times> pyfloat" where
  "latest_gaze d [] = d"
| "latest_gaze d (Gaze_in_image timestamp x y args # es) = latest_gaze (x, y) es"
| "latest_gaze d (e # es) = latest_gaze d es"

text \<open>
  The two gaze marker circles of src/eyeware.py are the circles drawn with
  \<open>MARKER_SIZE\<close>, \<open>MARKER_COLOR\<close> or \<open>SECONDARY_MARKER_SIZE\<close>,
  \<open>SECONDARY_MARKER_COLOR\<close> and thickness 2; the dot on a person's centroid has
  radius 4 and thickness \<open>-1\<close>.
\<close>

fun is_gaze_marker :: "action \<Rightarrow> bool" where
  "is_gaze_marker (Circle c r col t) =
     (t = 2 \<and> ((r = eyeware_MARKER_SIZE \<and> col = eyeware_MARKER_COLOR)
        \<or> (r = eyeware_SECONDARY_MARKER_SIZE \<and> col = eyeware_SECONDARY_MARKER_COLOR)))"
| "is_gaze_marker a = False"

text \<open>
  Two tracked persons, each with the gaze of its own run, on which the three values that
  the handler reads agree.
\<close>

definition same_predicate_values ::
    "pyfloat \<times> pyfloat \<Rightarrow> pyfloat \<times> pyfloat \<Rightarrow> nat \<times> person \<Rightarrow> nat \<times> person \<Rightarrow> bool" where
  "same_predicate_values gaze gaze' item item' =
     (is_seen (snd item) = is_seen (snd item')
      \<and> is_person_seen (snd item) gaze = is_person_seen (snd item') gaze'
      \<and> is_person_close (snd item) = is_person_close (snd item'))"

text \<open>
  \<open>cv2.imdecode(np_arr, 1)\<close> decodes to an image whose channels are in the order blue,
  green, red, and \<open>cv2.imshow\<close> displays it in that order: the colour tuple of a drawing
  call is read as \<open>(blue, green, red)\<close>. \<open>shown_rgb\<close> is the colour on the screen, as
  \<open>(red, green, blue)\<close>.
\<close>

definition shown_rgb :: "colour \<Rightarrow> colour" where
  "shown_rgb c = (case c of b # g # r # rest \<Rightarrow> r # g # b # rest | _ \<Rightarrow> c)"

definition rgb_red :: colour where "rgb_red = [255, 0, 0]"
definition rgb_green :: colour where "rgb_green = [0, 255, 0]"
definition rgb_blue :: colour where "rgb_blue = [0, 0, 255]"
definition rgb_yellow :: colour where "rgb_yellow = [255, 255, 0]"
definition rgb_cyan :: colour where "rgb_cyan = [0, 255, 255]"

section \<open>The Frontend callbacks\<close>

text \<open>
  C4. In both scripts, a connection response without an error sets the GAZE_IN_IMAGE
  stream rate to 125, starts the camera capture, starts a log session and sets
  \<open>connected\<close> to True, in this order; a response with an error does none of these and
  leaves the frontend, and so \<open>connected\<close>, as it was.
\<close>

theorem connect_response_actions:
  "(\<not> truthy error \<longrightarrow>
      pyside_handle_connect_response self error =
        (self\<lparr>connected := True\<rparr>,
         [Set_stream_control GAZE_IN_IMAGE 125 Lambda_None,
          Start_camera_capture 1 MEDIUM False Handle_camera_start_response,
          Start_log_session BASIC Lambda_None])
      \<and> eyeware_handle_connect_response self error =
        (self\<lparr>connected := True\<rparr>,
         [Set_stream_control GAZE_IN_IMAGE 125 Lambda_None,
          Start_camera_capture 1 MEDIUM False Handle_camera_start_response,
          Start_log_session BASIC Lambda_None]))
   \<and> (truthy error \<longrightarrow>
      pyside_handle_connect_response self error = (self, [])
      \<and> eyeware_handle_connect_response self error = (self, [])
      \<and> (\<not> connected self \<longrightarrow>
            \<not> connected (fst (pyside_handle_connect_response self error))
            \<and> \<not> connected (fst (eyeware_handle_connect_response self error))))"
  by (simp add: pyside_handle_connect_response_def eyeware_handle_connect_response_def)

theorem connect_response_actions_witness:
  "\<not> truthy PyNone
   \<and> connected (fst (pyside_handle_connect_response
         (fst (pyside_Frontend_init Handle_gaze_in_image_stream (''127.0.0.1'', 5000))) PyNone))
   \<and> snd (eyeware_handle_connect_response
         (fst (eyeware_Frontend_init Handle_gaze_in_image_stream (''127.0.0.1'', 5000))) PyNone) =
       [Set_stream_control GAZE_IN_IMAGE 125 Lambda_None,
        Start_camera_capture 1 MEDIUM False Handle_camera_start_response,
        Start_log_session BASIC Lambda_None]
   \<and> truthy (PyInt 3)
   \<and> \<not> connected (fst (pyside_Frontend_init Handle_gaze_in_image_stream (''127.0.0.1'', 5000)))
   \<and> \<not> connected (fst (pyside_handle_connect_response
         (fst (pyside_Frontend_init Handle_gaze_in_image_stream (''127.0.0.1'', 5000))) (PyInt 3)))
   \<and> eyeware_handle_connect_response
         (fst (eyeware_Frontend_init Handle_gaze_in_image_stream (''127.0.0.1'', 5000))) (PyInt 3) =
       (fst (eyeware_Frontend_init Handle_gaze_in_image_stream (''127.0.0.1'', 5000)), [])"
  using connect_response_actions
          [of PyNone "fst (pyside_Frontend_init Handle_gaze_in_image_stream (''127.0.0.1'', 5000))"]
        connect_response_actions
          [of "PyInt 3" "fst (pyside_Frontend_init Handle_gaze_in_image_stream (''127.0.0.1'', 5000))"]
  by (simp add: pyside_Frontend_init_def eyeware_Frontend_init_def)

text \<open>
  C10. In both scripts, a camera-start response with an error prints the error, then
  stops the video stream, stops the camera capture, stops the log session and shuts the
  API down, in this order, and then raises SystemExit (\<open>sys.exit()\<close>); the video stream
  is started exactly when the response has no error.
\<close>

theorem camera_start_response_actions:
  "(truthy error \<longrightarrow>
      pyside_handle_camera_start_response self error =
        ([Print (Camera_start_error error),
          Stop_video_stream (video_receiver_address self) Lambda_None,
          Stop_camera_capture Lambda_None,
          Stop_log_session Lambda_None,
          Api_shutdown], Raised SystemExit)
      \<and> eyeware_handle_camera_start_response self error =
        ([Print (Camera_start_error error),
          Stop_video_stream (video_receiver_address self) Lambda_None,
          Stop_camera_capture Lambda_None,
          Stop_log_session Lambda_None,
          Api_shutdown], Raised SystemExit))
   \<and> ((\<exists>a c. Start_video_stream a c \<in> set (fst (pyside_handle_camera_start_response self error)))
        = (\<not> truthy error))
   \<and> ((\<exists>a c. Start_video_stream a c \<in> set (fst (eyeware_handle_camera_start_response self error)))
        = (\<not> truthy error))"
  by (cases "video_receiver_address self")
     (auto simp add: pyside_handle_camera_start_response_def
        eyeware_handle_camera_start_response_def pyside_shutdown_def eyeware_shutdown_def)

theorem camera_start_response_actions_witness:
  "truthy (PyStr ''camera busy'')
   \<and> pyside_handle_camera_start_response
        \<lparr>video_receiver_address = (''127.0.0.1'', 5000), connected = True\<rparr> (PyStr ''camera busy'') =
        ([Print (Camera_start_error (PyStr ''camera busy'')),
          Stop_video_stream (''127.0.0.1'', 5000) Lambda_None,
          Stop_camera_capture Lambda_None,
          Stop_log_session Lambda_None,
          Api_shutdown], Raised SystemExit)
   \<and> eyeware_handle_camera_start_response
        \<lparr>video_receiver_address = (''127.0.0.1'', 5000), connected = True\<rparr> (PyStr ''camera busy'') =
        ([Print (Camera_start_error (PyStr ''camera busy'')),
          Stop_video_stream (''127.0.0.1'', 5000) Lambda_None,
          Stop_camera_capture Lambda_None,
          Stop_log_session Lambda_None,
          Api_shutdown], Raised SystemExit)"
  using camera_start_response_actions
          [of "PyStr ''camera busy''"
              "\<lparr>video_receiver_address = (''127.0.0.1'', 5000), connected = True\<rparr>"]
  by simp

text \<open>
  C6. The Frontend class is the same in both scripts: construction, the connection
  callback, the camera-start callback and the shutdown sequence give the same frontend,
  the same actions in the same order and the same outcome on every input.
\<close>

theorem frontend_classes_agree:
  "pyside_Frontend_init handler addr = eyeware_Frontend_init handler addr
   \<and> pyside_handle_connect_response self error = eyeware_handle_connect_response self error
   \<and> pyside_handle_camera_start_response self error = eyeware_handle_camera_start_response self error
   \<and> pyside_shutdown self = eyeware_shutdown self"
  by (simp add: pyside_Frontend_init_def eyeware_Frontend_init_def
        pyside_handle_connect_response_def eyeware_handle_connect_response_def
        pyside_handle_camera_start_response_def eyeware_handle_camera_start_response_def
        pyside_shutdown_def eyeware_shutdown_def)

section \<open>The stored gaze coordinates\<close>

lemma eyeware_main_state:
  "fst (eyeware_main addr) = (\<lparr>play_sound = False\<rparr>, fst (eyeware_GazeViewer_init addr))"
  by (simp add: eyeware_main_def play_warning_sound_def split_beta)

lemma pyside_run_gaze:
  "gaze_coordinates (fst (pyside_run self evs)) = latest_gaze (gaze_coordinates self) evs"
proof (induction evs arbitrary: self)
  case Nil
  then show ?case by simp
next
  case (Cons e es)
  show ?case
  proof (cases e)
    case (Connect_response err)
    then show ?thesis using Cons.IH
      by (simp add: split_beta Let_def)
  next
    case (Camera_start_response err)
    then show ?thesis using Cons.IH by (simp add: split_beta)
  next
    case (Gaze_in_image ts x y args)
    then show ?thesis using Cons.IH
      by (simp add: split_beta pyside_handle_gaze_in_image_stream_def)
  next
    case (Video_frame f)
    then show ?thesis using Cons.IH by (simp add: split_beta)
  qed
qed

lemma eyeware_run_gaze:
  "gaze_coordinates (snd (fst (eyeware_run st evs))) = latest_gaze (gaze_coordinates (snd st)) evs"
proof (induction evs arbitrary: st)
  case Nil
  then show ?case by simp
next
  case (Cons e es)
  obtain g self where st: "st = (g, self)" by (cases st)
  show ?case
  proof (cases e)
    case (Connect_response err)
    then show ?thesis using Cons.IH st
      by (simp add: split_beta Let_def)
  next
    case (Camera_start_response err)
    then show ?thesis using Cons.IH st by (simp add: split_beta)
  next
    case (Gaze_in_image ts x y args)
    then show ?thesis using Cons.IH st
      by (simp add: split_beta eyeware_handle_gaze_in_image_stream_def)
  next
    case (Video_frame f)
    then show ?thesis using Cons.IH st by (simp add: split_beta)
  qed
qed

lemma gaze_overlays_append: "gaze_overlays (xs @ ys) = gaze_overlays xs @ gaze_overlays ys"
  by (induction xs rule: gaze_overlays.induct) simp_all

lemma loop_body_overlays: "gaze_overlays (fst (eyeware_loop_body gaze ps item)) = []"
  by (cases item) (simp add: eyeware_loop_body_def Let_def)

lemma loop_overlays: "gaze_overlays (fst (eyeware_loop gaze ps items)) = []"
  by (induction items arbitrary: ps) (simp_all add: split_beta gaze_overlays_append loop_body_overlays)

lemma pyside_frame_overlay:
  "gaze_overlays (fst (pyside_handle_video_stream self frame key)) = [gaze_coordinates self]"
  by (simp add: pyside_handle_video_stream_def split_beta gaze_overlays_append pyside_close_def pyside_shutdown_def)

lemma eyeware_frame_overlay:
  "gaze_overlays (fst (eyeware_handle_video_stream self frame objects key)) = [gaze_coordinates self]"
  by (simp add: eyeware_handle_video_stream_def split_beta gaze_overlays_append eyeware_close_def
        eyeware_shutdown_def loop_overlays Let_def split: sum.splits)

text \<open>
  C5. In both scripts a gaze packet overwrites the stored coordinates with its own
  \<open>(gaze_img_x, gaze_img_y)\<close>. After any run of the program from \<open>main\<close>, a frame
  handler overlays exactly one coordinate text, that of the last gaze packet of the run,
  and that of \<open>(0, 0)\<close> when the run has no gaze packet.
\<close>

theorem gaze_packet_overwrites:
  "gaze_coordinates (pyside_handle_gaze_in_image_stream self timestamp x y args) = (x, y)
   \<and> gaze_coordinates (eyeware_handle_gaze_in_image_stream self timestamp x y args) = (x, y)
   \<and> gaze_overlays (fst (pyside_handle_video_stream
         (fst (pyside_run (fst (pyside_main addr)) evs)) frame key))
       = [latest_gaze (Fin 0, Fin 0) evs]
   \<and> gaze_overlays (fst (eyeware_handle_video_stream
         (snd (fst (eyeware_run (fst (eyeware_main addr)) evs'))) frame objects key))
       = [latest_gaze (Fin 0, Fin 0) evs']"
  by (simp add: pyside_handle_gaze_in_image_stream_def eyeware_handle_gaze_in_image_stream_def
        pyside_frame_overlay eyeware_frame_overlay pyside_run_gaze eyeware_run_gaze
        pyside_main_def eyeware_main_state pyside_GazeViewer_init_def eyeware_GazeViewer_init_def
        split_beta Let_def)

section \<open>Rounding to a double stays finite\<close>

lemma bitlen_bounds: "0 < n \<Longrightarrow> 2 ^ (bitlen n - 1) \<le> n \<and> n < 2 ^ bitlen n"
proof (induction n rule: bitlen.induct)
  case (1 n)
  show ?case
  proof (cases "n div 2 = 0")
    case True
    with 1 have "n = 1" by linarith
    then show ?thesis by (simp add: bitlen.simps)
  next
    case False
    then have h: "0 < n div 2" using 1(2) by linarith
    with 1 have ih: "2 ^ (bitlen (n div 2) - 1) \<le> n div 2" "n div 2 < 2 ^ bitlen (n div 2)"
      by simp_all
    have pos: "0 < bitlen (n div 2)" using h by (simp add: bitlen.simps[of "n div 2"])
    have bl: "bitlen n = Suc (bitlen (n div 2))" using 1(2) by (simp add: bitlen.simps[of n])
    have "(2::int) ^ bitlen (n div 2) = 2 * 2 ^ (bitlen (n div 2) - 1)"
      using pos by (cases "bitlen (n div 2)") simp_all
    then have lo: "(2::int) ^ bitlen (n div 2) \<le> n" using ih(1) by linarith
    have hi: "n < 2 * 2 ^ bitlen (n div 2)" using ih(2) by linarith
    show ?thesis using lo hi by (simp add: bl)
  qed
qed

lemma pow2_powi: "pow2 k = 2 powi k"
  by (simp add: pow2_def power_int_def inverse_eq_divide power_one_over)

lemma pow2_pos: "0 < pow2 k"
  by (simp add: pow2_def)

lemma floor_log2_le:
  assumes "0 < q"
  shows "pow2 (floor_log2 q) \<le> q"
proof (cases "1 \<le> q")
  case True
  define n where "n = \<lfloor>q\<rfloor>"
  have n: "0 < n" using True by (simp add: n_def)
  have a: "of_int n \<le> q" by (simp add: n_def)
  have "(2::int) ^ (bitlen n - 1) \<le> n" using bitlen_bounds[OF n] by simp
  then have b: "(2::rat) ^ (bitlen n - 1) \<le> of_int n"
    by (metis of_int_le_iff of_int_numeral of_int_power)
  have "0 < bitlen n" using n by (simp add: bitlen.simps[of n])
  then have "floor_log2 q = int (bitlen n - 1)"
    using True by (simp add: floor_log2_def n_def)
  then have "pow2 (floor_log2 q) = 2 ^ (bitlen n - 1)" by (simp add: pow2_def)
  then show ?thesis using order_trans[OF b a] by simp
next
  case False
  define m where "m = \<lceil>1 / q\<rceil> - 1"
  have "1 < 1 / q" using False assms by simp
  then have c: "2 \<le> \<lceil>1 / q\<rceil>" by linarith
  then have m: "0 < m" by (simp add: m_def)
  have "m < 2 ^ bitlen m" using bitlen_bounds[OF m] by simp
  then have "\<lceil>1 / q\<rceil> \<le> 2 ^ bitlen m" unfolding m_def by linarith
  then have "1 / q \<le> 2 ^ bitlen m"
    by (metis ceiling_le_iff of_int_numeral of_int_power)
  then have "1 / 2 ^ bitlen m \<le> q" using assms
    by (simp add: field_simps)
  moreover have "floor_log2 q = - int (bitlen m)" using False by (simp add: floor_log2_def m_def)
  moreover have "0 < bitlen m" using m by (simp add: bitlen.simps[of m])
  ultimately show ?thesis by (simp add: pow2_def)
qed

lemma floor_log2_less:
  assumes "0 < q"
  shows "q < pow2 (floor_log2 q + 1)"
proof (cases "1 \<le> q")
  case True
  define n where "n = \<lfloor>q\<rfloor>"
  have n: "0 < n" using True by (simp add: n_def)
  have a: "q < of_int (n + 1)" unfolding n_def by linarith
  have "n + 1 \<le> 2 ^ bitlen n" using bitlen_bounds[OF n] by simp
  then have b: "(of_int (n + 1) :: rat) \<le> 2 ^ bitlen n"
    by (metis of_int_le_iff of_int_numeral of_int_power)
  have "floor_log2 q + 1 = int (bitlen n)"
    using True by (simp add: floor_log2_def n_def)
  then have "pow2 (floor_log2 q + 1) = 2 ^ bitlen n" by (simp add: pow2_def)
  then show ?thesis using less_le_trans[OF a b] by simp
next
  case False
  define m where "m = \<lceil>1 / q\<rceil> - 1"
  have "1 < 1 / q" using False assms by simp
  then have c: "2 \<le> \<lceil>1 / q\<rceil>" by linarith
  then have m: "0 < m" by (simp add: m_def)
  have pos: "0 < bitlen m" using m by (simp add: bitlen.simps[of m])
  have "2 ^ (bitlen m - 1) \<le> m" using bitlen_bounds[OF m] by simp
  then have "(2::rat) ^ (bitlen m - 1) \<le> of_int m"
    by (metis of_int_le_iff of_int_numeral of_int_power)
  moreover have "of_int m < 1 / q" unfolding m_def by linarith
  ultimately have "(2::rat) ^ (bitlen m - 1) < 1 / q" by linarith
  then have lt: "q < 1 / 2 ^ (bitlen m - 1)" using assms by (simp add: field_simps)
  have e: "floor_log2 q + 1 = - int (bitlen m - 1)"
    using False pos by (simp add: floor_log2_def m_def)
  have "pow2 (- int (bitlen m - 1)) = 1 / 2 ^ (bitlen m - 1)"
    by (simp add: pow2_powi power_int_minus inverse_eq_divide)
  then show ?thesis using lt by (simp only: e)
qed

lemma pow2_mono: "k \<le> l \<Longrightarrow> pow2 k \<le> pow2 l"
  by (simp add: pow2_powi power_int_increasing)

lemma pow2_1024: "pow2 1024 = 2 ^ 1024"
  by (simp add: pow2_def)

text \<open>The overflow test of \<open>round_double\<close> is the comparison with \<open>2^1024\<close>.\<close>

lemma overflow_test_le: "pow2 1024 \<le> pow2 e \<Longrightarrow> pow2 e \<le> r \<Longrightarrow> 2 ^ 1024 \<le> r"
  unfolding pow2_1024 by (rule order_trans)

lemma overflow_test_less:
  "r < pow2 (e + 1) \<Longrightarrow> pow2 (e + 1) \<le> pow2 1024 \<Longrightarrow> 2 ^ 1024 \<le> r \<Longrightarrow> False"
  unfolding pow2_1024 by linarith

lemma overflow_test:
  assumes "0 < r"
  shows "(1024 \<le> floor_log2 r) = (2 ^ 1024 \<le> r)"
proof
  assume "1024 \<le> floor_log2 r"
  then have "pow2 1024 \<le> pow2 (floor_log2 r)" by (rule pow2_mono)
  then show "2 ^ 1024 \<le> r" using floor_log2_le[OF assms] by (rule overflow_test_le)
next
  assume a: "2 ^ 1024 \<le> r"
  show "1024 \<le> floor_log2 r"
  proof (rule ccontr)
    assume "\<not> 1024 \<le> floor_log2 r"
    then have "floor_log2 r + 1 \<le> 1024" by simp
    then have "pow2 (floor_log2 r + 1) \<le> pow2 1024" by (rule pow2_mono)
    then show False using floor_log2_less[OF assms] a overflow_test_less by blast
  qed
qed

lemma round_half_even_bounds: "0 \<le> q \<Longrightarrow> 0 \<le> round_half_even q \<and> of_int (round_half_even q) \<le> q + 1"
  unfolding round_half_even_def Let_def
  by (auto; linarith)


lemma pow2_sub52: "pow2 (e - 52) = pow2 e / 2 ^ 52"
  by (simp add: pow2_powi power_int_diff)

lemma pow2_quantum_le:
  assumes "0 < a"
  shows "pow2 (max (floor_log2 a - 52) (- 1074)) \<le> a / 4 + 1"
proof (cases "floor_log2 a - 52 \<le> - 1074")
  case True
  then have "max (floor_log2 a - 52) (- 1074) = - 1074" by simp
  moreover have "pow2 (- 1074) \<le> 1" by (simp add: pow2_def)
  ultimately show ?thesis using assms by simp
next
  case False
  then have "max (floor_log2 a - 52) (- 1074) = floor_log2 a - 52" by simp
  moreover have "pow2 (floor_log2 a) / 2 ^ 52 \<le> a / 2 ^ 52"
    using floor_log2_le[OF assms] by (simp add: divide_right_mono)
  moreover have "a / 2 ^ 52 \<le> a / 4" using assms by simp
  ultimately show ?thesis using assms by (simp add: pow2_sub52)
qed

lemma round_double_finite:
  assumes "\<bar>q\<bar> \<le> 3 / 4 * 2 ^ 1024"
  shows "\<exists>r. round_double q = Fin r \<and> \<bar>r\<bar> \<le> 5 / 4 * \<bar>q\<bar> + 1"
proof (cases "q = 0")
  case True
  then show ?thesis by (simp add: round_double_def)
next
  case False
  define a where "a = \<bar>q\<bar>"
  define P where "P = pow2 (max (floor_log2 a - 52) (- 1074))"
  define r where "r = of_int (round_half_even (a / P)) * P"
  have a: "0 < a" using False by (simp add: a_def)
  have P: "0 < P" by (simp add: P_def pow2_pos)
  have PL: "P \<le> a / 4 + 1" unfolding P_def by (rule pow2_quantum_le[OF a])
  have "0 \<le> a / P" using a P by simp
  then have rb: "0 \<le> round_half_even (a / P)" "of_int (round_half_even (a / P)) \<le> a / P + 1"
    using round_half_even_bounds by blast+
  have r0: "0 \<le> r" using rb(1) P by (simp add: r_def)
  have "r \<le> (a / P + 1) * P" unfolding r_def using rb(2) P by (simp add: mult_right_mono)
  also have "\<dots> = a + P" using P by (simp add: field_simps)
  finally have r1: "r \<le> 5 / 4 * a + 1" using PL by linarith
  have big: "(16::rat) < 2 ^ 1024" by simp
  have "a \<le> 3 / 4 * 2 ^ 1024" using assms by (simp add: a_def)
  then have r2: "r < 2 ^ 1024" using r1 big by linarith
  have rd: "round_double q =
      (if 0 < r \<and> 1024 \<le> floor_log2 r then (if 0 < q then PInf else NInf)
       else Fin (if 0 < q then r else - r))"
    using False unfolding round_double_def Let_def r_def P_def a_def by simp
  have "\<not> (0 < r \<and> 1024 \<le> floor_log2 r)" using r2 overflow_test[of r] by auto
  then have "round_double q = Fin (if 0 < q then r else - r)"
    by (simp only: rd if_False)
  moreover have "\<bar>if 0 < q then r else - r\<bar> \<le> 5 / 4 * \<bar>q\<bar> + 1"
    using r0 r1 unfolding a_def by (cases "0 < q") auto
  ultimately show ?thesis by blast
qed


lemma rescale_finite:
  assumes "\<bar>q\<bar> < 2 ^ 1024" and "0 < d" and "d \<le> 1000"
  shows "\<exists>r. float_mul (float_div (Fin q) (2 * d)) d = Fin r
           \<and> \<bar>r\<bar> \<le> 25 / 32 * \<bar>q\<bar> + 1251"
proof -
  define D :: rat where "D = of_int d"
  have D: "1 \<le> D" "D \<le> 1000" using assms(2,3) by (simp_all add: D_def)
  have big: "(16000::rat) < 2 ^ 1024" by simp
  have "\<bar>q / (2 * D)\<bar> = \<bar>q\<bar> / (2 * D)" using D by simp
  also have "\<dots> \<le> \<bar>q\<bar> / 2"
  proof -
    have "\<bar>q\<bar> * 1 \<le> \<bar>q\<bar> * D" using D(1) by (intro mult_left_mono) simp_all
    then show ?thesis using D by (simp add: field_simps)
  qed
  finally have q1: "\<bar>q / (2 * D)\<bar> \<le> \<bar>q\<bar> / 2" .
  then have "\<bar>q / (2 * D)\<bar> \<le> 3 / 4 * 2 ^ 1024" using assms(1) by linarith
  then obtain r1 where r1: "round_double (q / (2 * D)) = Fin r1"
      "\<bar>r1\<bar> \<le> 5 / 4 * \<bar>q / (2 * D)\<bar> + 1"
    using round_double_finite by blast
  have "\<bar>r1 * D\<bar> = \<bar>r1\<bar> * D" using D by (simp add: abs_mult)
  also have "\<dots> \<le> (5 / 4 * (\<bar>q\<bar> / (2 * D)) + 1) * D"
    using r1(2) D by (simp add: mult_right_mono)
  also have "\<dots> = 5 / 8 * \<bar>q\<bar> + D" using D by (simp add: field_simps)
  finally have b1: "\<bar>r1 * D\<bar> \<le> 5 / 8 * \<bar>q\<bar> + D" .
  then have "\<bar>r1 * D\<bar> \<le> 3 / 4 * 2 ^ 1024" using assms(1) D(2) big by linarith
  then obtain r2 where r2: "round_double (r1 * D) = Fin r2"
      "\<bar>r2\<bar> \<le> 5 / 4 * \<bar>r1 * D\<bar> + 1"
    using round_double_finite by blast
  have "\<bar>r2\<bar> \<le> 25 / 32 * \<bar>q\<bar> + 1251" using r2(2) b1 D(2) by linarith
  then show ?thesis using r1(1) r2(1) by (simp add: D_def)
qed

lemma trunc_abs_le: "\<bar>of_int (trunc r) :: rat\<bar> \<le> \<bar>r\<bar>"
proof (cases "0 \<le> r")
  case True
  then have "0 \<le> \<lfloor>r\<rfloor>" by simp
  then have "\<bar>of_int \<lfloor>r\<rfloor> :: rat\<bar> = of_int \<lfloor>r\<rfloor>" by simp
  also have "\<dots> \<le> r" by simp
  finally show ?thesis using True by (simp add: trunc_def)
next
  case False
  then have "\<lceil>r\<rceil> \<le> 0" by (simp add: ceiling_le_iff)
  then have "\<bar>of_int \<lceil>r\<rceil> :: rat\<bar> = - of_int \<lceil>r\<rceil>" by simp
  also have "\<dots> \<le> - r" by simp
  finally show ?thesis using False by (simp add: trunc_def)
qed

lemma rescale_in_c_int:
  assumes "\<bar>q\<bar> \<le> 2 ^ 31" and "0 < d" and "d \<le> 1000"
  shows "\<exists>n. py_int (float_mul (float_div (Fin q) (2 * d)) d) = Inr n \<and> in_c_int n"
proof -
  have "\<bar>q\<bar> < 2 ^ 1024" using assms(1) by (rule le_less_trans) simp
  then obtain r where r: "float_mul (float_div (Fin q) (2 * d)) d = Fin r"
      "\<bar>r\<bar> \<le> 25 / 32 * \<bar>q\<bar> + 1251"
    using rescale_finite[OF _ assms(2,3)] by blast
  have "\<bar>r\<bar> < 2 ^ 31" using r(2) assms(1) by simp
  then have "\<bar>of_int (trunc r) :: rat\<bar> < 2 ^ 31" using trunc_abs_le[of r] by linarith
  then have "\<bar>trunc r\<bar> < 2 ^ 31"
    by (metis of_int_abs of_int_less_iff of_int_numeral of_int_power)
  then have "in_c_int (trunc r)" unfolding in_c_int_def by linarith
  then show ?thesis using r(1) by simp
qed

section \<open>The frame handler of src/eyeware.py\<close>

lemma filter_rect_loop_body:
  "filter is_rectangle (fst (eyeware_loop_body gaze ps (i, p))) =
     [Rectangle (rect_top_left p) (rect_bottom_right p)
        (if is_seen p \<or> is_person_seen p gaze then [0, 255, 0]
         else if is_person_close p then [255, 0, 0] else [255, 255, 0]) 2]"
  by (simp add: eyeware_loop_body_def Let_def)

lemma filter_rect_loop:
  "filter is_rectangle (fst (eyeware_loop gaze ps objects)) =
     map (\<lambda>(i, p). Rectangle (rect_top_left p) (rect_bottom_right p)
        (if is_seen p \<or> is_person_seen p gaze then [0, 255, 0]
         else if is_person_close p then [255, 0, 0] else [255, 255, 0]) 2) objects"
proof (induction objects arbitrary: ps)
  case Nil
  then show ?case by simp
next
  case (Cons item items)
  obtain i p where item: "item = (i, p)" by (cases item)
  show ?case using Cons.IH
    by (simp add: item split_beta filter_rect_loop_body)
qed

lemma handler_trace_cases:
  "fst (eyeware_handle_video_stream self frame objects key) =
     fst (eyeware_loop (gaze_coordinates self) False objects)
     @ [Put_text (Gaze_text (fst (gaze_coordinates self)) (snd (gaze_coordinates self)))
          eyeware_TEXT_ORG eyeware_FONT_SCALE eyeware_TEXT_COLOR eyeware_TEXT_THICKNESS True]
     @ (if isnan (fst (gaze_coordinates self)) \<or> isnan (snd (gaze_coordinates self)) then
          [Imshow ''preview''] @ (if q_pressed key then eyeware_close self else [])
        else
          (case fixed_gaze_coords (gaze_coordinates self) of
             Inl e \<Rightarrow> []
           | Inr c \<Rightarrow>
               if in_c_int (fst c) \<and> in_c_int (snd c) then
                 [Circle c eyeware_MARKER_SIZE eyeware_MARKER_COLOR 2,
                  Circle c eyeware_SECONDARY_MARKER_SIZE eyeware_SECONDARY_MARKER_COLOR 2,
                  Imshow ''preview''] @ (if q_pressed key then eyeware_close self else [])
               else []))"
  by (simp add: eyeware_handle_video_stream_def split_beta Let_def split: sum.splits)

text \<open>
  The frame handler draws exactly one rectangle per tracked person returned by the
  tracker's update, in the order of the items, on the person's \<open>rect[1]\<close> corners: with
  the tuple \<open>(255, 0, 0)\<close> when the person is not marked seen, \<open>is_person_seen\<close> of the
  stored gaze is false and the person is close; with \<open>(0, 255, 0)\<close> when the person is
  marked seen or gazed at; with \<open>(255, 255, 0)\<close> when the person is neither seen nor gazed
  at and is not close.
\<close>

lemma rectangle_per_person:
  "filter is_rectangle (fst (eyeware_handle_video_stream self frame objects key)) =
     map (\<lambda>(objectID, person).
        Rectangle (rect_top_left person) (rect_bottom_right person)
          (if is_seen person \<or> is_person_seen person (gaze_coordinates self) then [0, 255, 0]
           else if is_person_close person then [255, 0, 0]
           else [255, 255, 0]) 2) objects"
  by (simp add: handler_trace_cases filter_rect_loop eyeware_close_def eyeware_shutdown_def
        split: sum.splits)

text \<open>
  C1. The frame handler of src/eyeware.py picks the rectangle of each tracked person as
  the claim says (flagged for a close person that is neither seen nor gazed at, another
  colour for a far one, green for a person seen or gazed at), but the flagged rectangle
  is not red and the far one is not yellow. On the frame below, with one person of each
  kind, the flagged rectangle is drawn with the tuple \<open>(255, 0, 0)\<close>, which the source
  marks \<open>#R\<close> and which is blue on the screen, and the far person's with
  \<open>(255, 255, 0)\<close>, which is cyan; only \<open>(0, 255, 0)\<close> is green in either channel
  order.
\<close>

theorem flagged_rectangle_is_blue:
  "filter is_rectangle (fst (eyeware_handle_video_stream
      \<lparr>frontend = \<lparr>video_receiver_address = (''127.0.0.1'', 5000), connected = True\<rparr>,
       gaze_coordinates = (Fin 900, Fin 500)\<rparr>
      \<lparr>img_width = 1280, img_height = 720\<rparr>
      [(0, \<lparr>centroid = (60, 120), rect_1 = (10, 20, 110, 220), is_seen = False,
            is_person_seen = (\<lambda>g. False), is_person_close = True\<rparr>),
       (1, \<lparr>centroid = (300, 100), rect_1 = (280, 60, 320, 140), is_seen = False,
            is_person_seen = (\<lambda>g. False), is_person_close = False\<rparr>),
       (2, \<lparr>centroid = (450, 250), rect_1 = (400, 150, 500, 350), is_seen = False,
            is_person_seen = (\<lambda>g. True), is_person_close = True\<rparr>),
       (3, \<lparr>centroid = (600, 200), rect_1 = (580, 150, 620, 250), is_seen = True,
            is_person_seen = (\<lambda>g. False), is_person_close = True\<rparr>)]
      (- 1))) =
   [Rectangle (10, 20) (110, 220) [255, 0, 0] 2,
    Rectangle (280, 60) (320, 140) [255, 255, 0] 2,
    Rectangle (400, 150) (500, 350) [0, 255, 0] 2,
    Rectangle (580, 150) (620, 250) [0, 255, 0] 2]
   \<and> shown_rgb [255, 0, 0] = rgb_blue
   \<and> shown_rgb [255, 0, 0] \<noteq> rgb_red
   \<and> shown_rgb [255, 255, 0] = rgb_cyan
   \<and> shown_rgb [255, 255, 0] \<noteq> rgb_yellow
   \<and> shown_rgb [0, 255, 0] = rgb_green"
  by (simp add: rectangle_per_person rect_top_left_def rect_bottom_right_def shown_rgb_def
        rgb_red_def rgb_green_def rgb_blue_def rgb_yellow_def rgb_cyan_def)

lemma rectangle_colours_append:
  "rectangle_colours (xs @ ys) = rectangle_colours xs @ rectangle_colours ys"
  by (induction xs rule: rectangle_colours.induct) simp_all

lemma rectangle_colours_loop_body:
  "rectangle_colours (fst (eyeware_loop_body gaze ps (i, p))) =
     [if is_seen p \<or> is_person_seen p gaze then [0, 255, 0]
      else if is_person_close p then [255, 0, 0] else [255, 255, 0]]"
  by (simp add: eyeware_loop_body_def Let_def)

lemma rectangle_colours_loop:
  "rectangle_colours (fst (eyeware_loop gaze ps objects)) =
     map (\<lambda>(i, p). if is_seen p \<or> is_person_seen p gaze then [0, 255, 0]
        else if is_person_close p then [255, 0, 0] else [255, 255, 0]) objects"
proof (induction objects arbitrary: ps)
  case Nil
  then show ?case by simp
next
  case (Cons item items)
  obtain i p where item: "item = (i, p)" by (cases item)
  show ?case using Cons.IH
    by (simp add: item split_beta rectangle_colours_append rectangle_colours_loop_body)
qed

lemma rectangle_colours_handler:
  "rectangle_colours (fst (eyeware_handle_video_stream self frame objects key)) =
     map (\<lambda>(i, p). if is_seen p \<or> is_person_seen p (gaze_coordinates self) then [0, 255, 0]
        else if is_person_close p then [255, 0, 0] else [255, 255, 0]) objects"
  by (simp add: handler_trace_cases rectangle_colours_append rectangle_colours_loop
        eyeware_close_def eyeware_shutdown_def split: sum.splits)

text \<open>
  C7. The colours of the rectangles drawn by the frame handler of src/eyeware.py depend
  only on the values \<open>is_seen\<close>, \<open>is_person_seen(gaze)\<close> and \<open>is_person_close\<close> of
  the tracked persons: two runs of the handler (any viewers, frames and keys) whose
  persons agree pairwise on these three values draw the same colours.
\<close>

theorem colour_depends_on_three_values:
  assumes "list_all2 (same_predicate_values (gaze_coordinates self) (gaze_coordinates self'))
             objects objects'"
  shows "rectangle_colours (fst (eyeware_handle_video_stream self frame objects key)) =
         rectangle_colours (fst (eyeware_handle_video_stream self' frame' objects' key'))"
proof -
  have "map (\<lambda>(i, p). if is_seen p \<or> is_person_seen p (gaze_coordinates self) then [0, 255, 0]
            else if is_person_close p then [255, 0, 0] else [255, 255, 0::nat]) objects =
        map (\<lambda>(i, p). if is_seen p \<or> is_person_seen p (gaze_coordinates self') then [0, 255, 0]
            else if is_person_close p then [255, 0, 0] else [255, 255, 0]) objects'"
    using assms
    by (induction rule: list_all2_induct) (auto simp add: same_predicate_values_def)
  then show ?thesis by (simp add: rectangle_colours_handler)
qed

text \<open>
  An instance: two runs that differ in the viewer, the gaze, the frame, the key and the
  person's identifier, centroid and rectangle, and agree on the three values.
\<close>

theorem colour_depends_on_three_values_witness:
  "list_all2 (same_predicate_values (Fin 900, Fin 500) (NaN, Fin 3))
      [(0, \<lparr>centroid = (60, 120), rect_1 = (10, 20, 110, 220), is_seen = False,
            is_person_seen = (\<lambda>g. False), is_person_close = True\<rparr>)]
      [(7, \<lparr>centroid = (300, 100), rect_1 = (280, 60, 320, 140), is_seen = False,
            is_person_seen = (\<lambda>g. isnan (snd g)), is_person_close = True\<rparr>)]
   \<and> rectangle_colours (fst (eyeware_handle_video_stream
        \<lparr>frontend = \<lparr>video_receiver_address = (''127.0.0.1'', 5000), connected = True\<rparr>,
         gaze_coordinates = (Fin 900, Fin 500)\<rparr>
        \<lparr>img_width = 1280, img_height = 720\<rparr>
        [(0, \<lparr>centroid = (60, 120), rect_1 = (10, 20, 110, 220), is_seen = False,
              is_person_seen = (\<lambda>g. False), is_person_close = True\<rparr>)]
        (- 1))) =
     rectangle_colours (fst (eyeware_handle_video_stream
        \<lparr>frontend = \<lparr>video_receiver_address = (''10.0.0.2'', 6000), connected = False\<rparr>,
         gaze_coordinates = (NaN, Fin 3)\<rparr>
        \<lparr>img_width = 640, img_height = 480\<rparr>
        [(7, \<lparr>centroid = (300, 100), rect_1 = (280, 60, 320, 140), is_seen = False,
              is_person_seen = (\<lambda>g. isnan (snd g)), is_person_close = True\<rparr>)]
        113))"
proof -
  have h: "list_all2 (same_predicate_values
        (gaze_coordinates \<lparr>frontend = \<lparr>video_receiver_address = (''127.0.0.1'', 5000), connected = True\<rparr>,
         gaze_coordinates = (Fin 900, Fin 500)\<rparr>)
        (gaze_coordinates \<lparr>frontend = \<lparr>video_receiver_address = (''10.0.0.2'', 6000), connected = False\<rparr>,
         gaze_coordinates = (NaN, Fin 3)\<rparr>))
      [(0, \<lparr>centroid = (60, 120), rect_1 = (10, 20, 110, 220), is_seen = False,
            is_person_seen = (\<lambda>g. False), is_person_close = True\<rparr>)]
      [(7, \<lparr>centroid = (300, 100), rect_1 = (280, 60, 320, 140), is_seen = False,
            is_person_seen = (\<lambda>g. isnan (snd g)), is_person_close = True\<rparr>)]"
    by (simp add: same_predicate_values_def)
  show ?thesis
    using h colour_depends_on_three_values[OF h,
        of "\<lparr>img_width = 1280, img_height = 720\<rparr>" "- 1" "\<lparr>img_width = 640, img_height = 480\<rparr>" 113]
    by simp
qed

lemma filter_circle_loop:
  "filter is_circle (fst (eyeware_loop gaze ps objects)) =
     map (\<lambda>(i, p). Circle (centroid p) 4 [0, 255, 0] (- 1)) objects"
proof (induction objects arbitrary: ps)
  case Nil
  then show ?case by simp
next
  case (Cons item items)
  obtain i p where item: "item = (i, p)" by (cases item)
  show ?case using Cons.IH
    by (simp add: item split_beta eyeware_loop_body_def Let_def)
qed

lemma filter_call_loop:
  "filter is_call_is_person_seen (fst (eyeware_loop gaze ps objects)) =
     map (\<lambda>(i, p). Call_is_person_seen i gaze) (filter (\<lambda>(i, p). \<not> is_seen p) objects)"
proof (induction objects arbitrary: ps)
  case Nil
  then show ?case by simp
next
  case (Cons item items)
  obtain i p where item: "item = (i, p)" by (cases item)
  show ?case using Cons.IH
    by (simp add: item split_beta eyeware_loop_body_def Let_def)
qed

text \<open>
  C8. In src/eyeware.py, when either stored gaze coordinate is NaN, the frame handler
  returns without an exception and the only circles it draws are the centroid dots of the
  tracked persons, so neither marker circle is drawn; the coordinate text still shows
  the stored pair, and \<open>is_person_seen\<close> is still called with the stored pair, once for
  each person not marked seen.
\<close>

theorem nan_gaze_skips_marker:
  assumes "isnan (fst (gaze_coordinates self)) \<or> isnan (snd (gaze_coordinates self))"
  shows "snd (eyeware_handle_video_stream self frame objects key) = Returned
    \<and> filter is_circle (fst (eyeware_handle_video_stream self frame objects key)) =
        map (\<lambda>(objectID, person). Circle (centroid person) 4 [0, 255, 0] (- 1)) objects
    \<and> gaze_overlays (fst (eyeware_handle_video_stream self frame objects key)) =
        [gaze_coordinates self]
    \<and> filter is_call_is_person_seen (fst (eyeware_handle_video_stream self frame objects key)) =
        map (\<lambda>(objectID, person). Call_is_person_seen objectID (gaze_coordinates self))
          (filter (\<lambda>(objectID, person). \<not> is_seen person) objects)"
proof -
  have "snd (eyeware_handle_video_stream self frame objects key) = Returned"
    using assms by (auto simp add: eyeware_handle_video_stream_def split_beta Let_def)
  moreover have "filter is_circle (fst (eyeware_handle_video_stream self frame objects key)) =
        map (\<lambda>(objectID, person). Circle (centroid person) 4 [0, 255, 0] (- 1)) objects"
    using assms
    by (simp add: handler_trace_cases filter_circle_loop eyeware_close_def eyeware_shutdown_def)
  moreover have "filter is_call_is_person_seen
        (fst (eyeware_handle_video_stream self frame objects key)) =
        map (\<lambda>(objectID, person). Call_is_person_seen objectID (gaze_coordinates self))
          (filter (\<lambda>(objectID, person). \<not> is_seen person) objects)"
    using assms
    by (simp add: handler_trace_cases filter_call_loop eyeware_close_def eyeware_shutdown_def)
  ultimately show ?thesis by (simp add: eyeware_frame_overlay)
qed

text \<open>
  An instance: the stored pair \<open>(nan, 360.0)\<close> and one close person that is neither seen
  nor gazed at.
\<close>

theorem nan_gaze_skips_marker_witness:
  "isnan (fst (NaN, Fin 360))
   \<and> eyeware_handle_video_stream
        \<lparr>frontend = \<lparr>video_receiver_address = (''127.0.0.1'', 5000), connected = True\<rparr>,
         gaze_coordinates = (NaN, Fin 360)\<rparr>
        \<lparr>img_width = 1280, img_height = 720\<rparr>
        [(0, \<lparr>centroid = (60, 120), rect_1 = (10, 20, 110, 220), is_seen = False,
              is_person_seen = (\<lambda>g. False), is_person_close = True\<rparr>)]
        (- 1) =
      ([Put_text (ID_text 0) (50, 110) (1 / 2) [0, 255, 0] 2 False,
        Circle (60, 120) 4 [0, 255, 0] (- 1),
        Call_is_person_seen 0 (NaN, Fin 360),
        Rectangle (10, 20) (110, 220) [255, 0, 0] 2,
        Put_text (Gaze_text NaN (Fin 360)) (50, 50) (1 / 2) [0, 0, 255] 2 True,
        Imshow ''preview''], Returned)
   \<and> filter is_circle (fst (eyeware_handle_video_stream
        \<lparr>frontend = \<lparr>video_receiver_address = (''127.0.0.1'', 5000), connected = True\<rparr>,
         gaze_coordinates = (NaN, Fin 360)\<rparr>
        \<lparr>img_width = 1280, img_height = 720\<rparr>
        [(0, \<lparr>centroid = (60, 120), rect_1 = (10, 20, 110, 220), is_seen = False,
              is_person_seen = (\<lambda>g. False), is_person_close = True\<rparr>)]
        (- 1))) = [Circle (60, 120) 4 [0, 255, 0] (- 1)]"
  using nan_gaze_skips_marker[of
        "\<lparr>frontend = \<lparr>video_receiver_address = (''127.0.0.1'', 5000), connected = True\<rparr>,
         gaze_coordinates = (NaN, Fin 360)\<rparr>"
        "\<lparr>img_width = 1280, img_height = 720\<rparr>"
        "[(0, \<lparr>centroid = (60, 120), rect_1 = (10, 20, 110, 220), is_seen = False,
              is_person_seen = (\<lambda>g. False), is_person_close = True\<rparr>)]"
        "- 1"]
  by (simp add: eyeware_handle_video_stream_def eyeware_loop_body_def rect_top_left_def
        rect_bottom_right_def q_pressed_def eyeware_TEXT_ORG_def eyeware_FONT_SCALE_def
        eyeware_TEXT_COLOR_def eyeware_TEXT_THICKNESS_def)

section \<open>The gaze marker of src/eyeware.py\<close>

text \<open>
  The rescaling of the vertical coordinate 26.0, step by step: the quotient \<open>26 / 720\<close>
  rounds to a double just below \<open>13 / 360\<close>, its product with 360 rounds to the double
  just below 13, and \<open>int\<close> truncates that to 12.
\<close>

lemma float_div_26: "float_div (Fin 26) 720 = Fin (2602079784702953 / 2 ^ 56)"
  by code_simp

lemma float_mul_26:
  "float_mul (Fin (2602079784702953 / 2 ^ 56)) 360 = Fin (7318349394477055 / 2 ^ 49)"
  by code_simp

lemma py_int_26: "py_int (Fin (7318349394477055 / 2 ^ 49)) = Inr 12"
  by code_simp

lemma rescale_0: "py_int (float_mul (float_div (Fin 0) 1280) 640) = Inr 0"
  by code_simp

lemma rescale_26: "py_int (float_mul (float_div (Fin 26) 720) 360) = Inr 12"
  by (simp only: float_div_26 float_mul_26 py_int_26)

lemma rescale_640: "py_int (float_mul (float_div (Fin 640) 1280) 640) = Inr 320"
  by code_simp

lemma rescale_360: "py_int (float_mul (float_div (Fin 360) 720) 360) = Inr 180"
  by code_simp

lemma rescale_2_32: "py_int (float_mul (float_div (Fin 4294967296) 1280) 640) = Inr 2147483648"
  by code_simp

lemma fixed_gaze_coords_0_26: "fixed_gaze_coords (Fin 0, Fin 26) = Inr (0, 12)"
  by (simp only: fixed_gaze_coords_def fst_conv snd_conv rescale_0 rescale_26 sum.case)

lemma fixed_gaze_coords_640_360: "fixed_gaze_coords (Fin 640, Fin 360) = Inr (320, 180)"
  by (simp only: fixed_gaze_coords_def fst_conv snd_conv rescale_640 rescale_360 sum.case)

lemma fixed_gaze_coords_2_32:
  "fixed_gaze_coords (Fin 4294967296, Fin 360) = Inr (2147483648, 180)"
  by (simp only: fixed_gaze_coords_def fst_conv snd_conv rescale_2_32 rescale_360 sum.case)

lemma fixed_gaze_coords_PInf: "fixed_gaze_coords (PInf, y) = Inl OverflowError"
  by (simp add: fixed_gaze_coords_def)

lemma in_c_int_small: "in_c_int 0" "in_c_int 12" "in_c_int 180" "in_c_int 320"
  by (simp_all add: in_c_int_def)

lemma not_in_c_int_2_31: "\<not> in_c_int 2147483648"
  by (simp add: in_c_int_def)

lemma fixed_gaze_coords_finite:
  assumes "\<bar>qx\<bar> < 2 ^ 1024" and "\<bar>qy\<bar> < 2 ^ 1024"
  shows "\<exists>px py. py_int (float_mul (float_div (Fin qx) 1280) 640) = Inr px
           \<and> py_int (float_mul (float_div (Fin qy) 720) 360) = Inr py
           \<and> fixed_gaze_coords (Fin qx, Fin qy) = Inr (px, py)"
proof -
  obtain rx where rx: "float_mul (float_div (Fin qx) 1280) 640 = Fin rx"
    using rescale_finite[OF assms(1), of 640] by auto
  obtain ry where ry: "float_mul (float_div (Fin qy) 720) 360 = Fin ry"
    using rescale_finite[OF assms(2), of 360] by auto
  show ?thesis using rx ry by (simp add: fixed_gaze_coords_def)
qed

lemma fixed_gaze_coords_in_c_int:
  assumes "\<bar>qx\<bar> \<le> 2 ^ 31" and "\<bar>qy\<bar> \<le> 2 ^ 31"
    and "fixed_gaze_coords (Fin qx, Fin qy) = Inr (px, py)"
  shows "in_c_int px \<and> in_c_int py"
proof -
  obtain nx where nx: "py_int (float_mul (float_div (Fin qx) 1280) 640) = Inr nx" "in_c_int nx"
    using rescale_in_c_int[OF assms(1), of 640] by auto
  obtain ny where ny: "py_int (float_mul (float_div (Fin qy) 720) 360) = Inr ny" "in_c_int ny"
    using rescale_in_c_int[OF assms(2), of 360] by auto
  have "fixed_gaze_coords (Fin qx, Fin qy) = Inr (nx, ny)"
    by (simp only: fixed_gaze_coords_def fst_conv snd_conv nx(1) ny(1) sum.case)
  then show ?thesis using assms(3) nx(2) ny(2) by simp
qed

lemma filter_marker_loop: "filter is_gaze_marker (fst (eyeware_loop gaze ps objects)) = []"
proof (induction objects arbitrary: ps)
  case Nil
  then show ?case by simp
next
  case (Cons item items)
  obtain i p where item: "item = (i, p)" by (cases item)
  show ?case using Cons.IH
    by (simp add: item split_beta eyeware_loop_body_def Let_def)
qed

lemma filter_marker_close: "filter is_gaze_marker (eyeware_close self) = []"
  by (simp add: eyeware_close_def eyeware_shutdown_def)

lemma imshow_not_in_loop: "Imshow s \<notin> set (fst (eyeware_loop gaze ps objects))"
proof (induction objects arbitrary: ps)
  case Nil
  then show ?case by simp
next
  case (Cons item items)
  obtain i p where item: "item = (i, p)" by (cases item)
  show ?case using Cons.IH
    by (simp add: item split_beta eyeware_loop_body_def Let_def)
qed

text \<open>The two ways the handler ends once \<open>fixed_gaze_coords\<close> has a value.\<close>

lemma handler_marker_drawn:
  assumes "\<not> isnan (fst (gaze_coordinates self))" and "\<not> isnan (snd (gaze_coordinates self))"
    and "fixed_gaze_coords (gaze_coordinates self) = Inr (px, py)"
    and "in_c_int px" and "in_c_int py"
  shows "eyeware_handle_video_stream self frame objects key =
     (fst (eyeware_loop (gaze_coordinates self) False objects)
      @ [Put_text (Gaze_text (fst (gaze_coordinates self)) (snd (gaze_coordinates self)))
           (50, 50) (1 / 2) [0, 0, 255] 2 True,
         Circle (px, py) 5 [0, 250, 50] 2,
         Circle (px, py) 20 [250, 0, 0, 64] 2,
         Imshow ''preview'']
      @ (if q_pressed key then eyeware_close self else []), Returned)"
  using assms
  by (simp add: eyeware_handle_video_stream_def split_beta Let_def
        eyeware_TEXT_ORG_def eyeware_FONT_SCALE_def eyeware_TEXT_COLOR_def
        eyeware_TEXT_THICKNESS_def eyeware_MARKER_SIZE_def eyeware_MARKER_COLOR_def
        eyeware_SECONDARY_MARKER_SIZE_def eyeware_SECONDARY_MARKER_COLOR_def)

lemma handler_circle_raises:
  assumes "\<not> isnan (fst (gaze_coordinates self))" and "\<not> isnan (snd (gaze_coordinates self))"
    and "fixed_gaze_coords (gaze_coordinates self) = Inr (px, py)"
    and "\<not> (in_c_int px \<and> in_c_int py)"
  shows "eyeware_handle_video_stream self frame objects key =
     (fst (eyeware_loop (gaze_coordinates self) False objects)
      @ [Put_text (Gaze_text (fst (gaze_coordinates self)) (snd (gaze_coordinates self)))
           (50, 50) (1 / 2) [0, 0, 255] 2 True], Raised Cv2_error)"
  using assms
  by (simp add: eyeware_handle_video_stream_def split_beta Let_def
        eyeware_TEXT_ORG_def eyeware_FONT_SCALE_def eyeware_TEXT_COLOR_def
        eyeware_TEXT_THICKNESS_def)

text \<open>
  C9 (amended). In src/eyeware.py, for every stored gaze pair \<open>(x, y)\<close> of finite doubles
  (magnitudes below \<open>2^1024\<close>), the rescaled point \<open>(int(x/1280*640), int(y/720*360))\<close>
  exists, where the division and the multiplication are those of double arithmetic and
  \<open>int\<close> truncates towards zero. When both its coordinates fit a C int, which is so
  whenever \<open>x\<close> and \<open>y\<close> are at most \<open>2^31\<close> in magnitude, the frame handler returns
  without an exception and draws its two marker circles at that point, the same for
  every decoded frame, every list of tracked persons and every key. Otherwise
  \<open>cv2.circle\<close> raises, no marker is drawn and the frame is not displayed.
\<close>

theorem marker_position:
  assumes "gaze_coordinates self = (Fin qx, Fin qy)"
    and "\<bar>qx\<bar> < 2 ^ 1024" and "\<bar>qy\<bar> < 2 ^ 1024"
  shows "\<exists>px py.
           py_int (float_mul (float_div (Fin qx) 1280) 640) = Inr px
         \<and> py_int (float_mul (float_div (Fin qy) 720) 360) = Inr py
         \<and> (if in_c_int px \<and> in_c_int py then
               snd (eyeware_handle_video_stream self frame objects key) = Returned
             \<and> filter is_gaze_marker (fst (eyeware_handle_video_stream self frame objects key)) =
                 [Circle (px, py) 5 [0, 250, 50] 2, Circle (px, py) 20 [250, 0, 0, 64] 2]
             \<and> filter is_gaze_marker (fst (eyeware_handle_video_stream self frame' objects' key')) =
                 [Circle (px, py) 5 [0, 250, 50] 2, Circle (px, py) 20 [250, 0, 0, 64] 2]
             else
               snd (eyeware_handle_video_stream self frame objects key) = Raised Cv2_error
             \<and> filter is_gaze_marker (fst (eyeware_handle_video_stream self frame objects key)) = []
             \<and> Imshow ''preview'' \<notin> set (fst (eyeware_handle_video_stream self frame objects key)))
         \<and> (\<bar>qx\<bar> \<le> 2 ^ 31 \<and> \<bar>qy\<bar> \<le> 2 ^ 31 \<longrightarrow> in_c_int px \<and> in_c_int py)"
proof -
  obtain px py where p:
      "py_int (float_mul (float_div (Fin qx) 1280) 640) = Inr px"
      "py_int (float_mul (float_div (Fin qy) 720) 360) = Inr py"
      "fixed_gaze_coords (Fin qx, Fin qy) = Inr (px, py)"
    using fixed_gaze_coords_finite[OF assms(2,3)] by blast
  have n: "\<not> isnan (fst (gaze_coordinates self))" "\<not> isnan (snd (gaze_coordinates self))"
    using assms(1) by simp_all
  have f: "fixed_gaze_coords (gaze_coordinates self) = Inr (px, py)"
    using assms(1) p(3) by simp
  have range: "\<bar>qx\<bar> \<le> 2 ^ 31 \<and> \<bar>qy\<bar> \<le> 2 ^ 31 \<longrightarrow> in_c_int px \<and> in_c_int py"
    using fixed_gaze_coords_in_c_int[OF _ _ p(3)] by blast
  show ?thesis
  proof (cases "in_c_int px \<and> in_c_int py")
    case True
    then have d: "\<And>f obs k. eyeware_handle_video_stream self f obs k =
       (fst (eyeware_loop (gaze_coordinates self) False obs)
        @ [Put_text (Gaze_text (fst (gaze_coordinates self)) (snd (gaze_coordinates self)))
             (50, 50) (1 / 2) [0, 0, 255] 2 True,
           Circle (px, py) 5 [0, 250, 50] 2,
           Circle (px, py) 20 [250, 0, 0, 64] 2,
           Imshow ''preview'']
        @ (if q_pressed k then eyeware_close self else []), Returned)"
      using handler_marker_drawn[OF n f] by blast
    have m: "\<And>f obs k. filter is_gaze_marker (fst (eyeware_handle_video_stream self f obs k)) =
         [Circle (px, py) 5 [0, 250, 50] 2, Circle (px, py) 20 [250, 0, 0, 64] 2]"
      by (simp add: d filter_marker_loop filter_marker_close
            eyeware_MARKER_SIZE_def eyeware_MARKER_COLOR_def eyeware_SECONDARY_MARKER_SIZE_def
            eyeware_SECONDARY_MARKER_COLOR_def)
    have "snd (eyeware_handle_video_stream self frame objects key) = Returned"
      by (simp add: d)
    then show ?thesis using True p(1,2) m range by auto
  next
    case False
    have d: "eyeware_handle_video_stream self frame objects key =
       (fst (eyeware_loop (gaze_coordinates self) False objects)
        @ [Put_text (Gaze_text (fst (gaze_coordinates self)) (snd (gaze_coordinates self)))
             (50, 50) (1 / 2) [0, 0, 255] 2 True], Raised Cv2_error)"
      using handler_circle_raises[OF n f False] .
    have "snd (eyeware_handle_video_stream self frame objects key) = Raised Cv2_error"
      by (simp add: d)
    moreover have "filter is_gaze_marker (fst (eyeware_handle_video_stream self frame objects key)) = []"
      by (simp add: d filter_marker_loop)
    moreover have "Imshow ''preview'' \<notin> set (fst (eyeware_handle_video_stream self frame objects key))"
      by (simp add: d imshow_not_in_loop)
    ultimately show ?thesis using False p(1,2) range by auto
  qed
qed

text \<open>
  An instance: the stored pair \<open>(640.0, 360.0)\<close> on a 1920 by 1080 frame puts both marker
  circles at \<open>(320, 180)\<close>.
\<close>

theorem marker_position_witness:
  "gaze_coordinates
      \<lparr>frontend = \<lparr>video_receiver_address = (''127.0.0.1'', 5000), connected = True\<rparr>,
       gaze_coordinates = (Fin 640, Fin 360)\<rparr> = (Fin 640, Fin 360)
   \<and> \<bar>640 :: rat\<bar> < 2 ^ 1024 \<and> \<bar>360 :: rat\<bar> < 2 ^ 1024
   \<and> \<bar>640 :: rat\<bar> \<le> 2 ^ 31 \<and> \<bar>360 :: rat\<bar> \<le> 2 ^ 31
   \<and> in_c_int 320 \<and> in_c_int 180
   \<and> snd (eyeware_handle_video_stream
        \<lparr>frontend = \<lparr>video_receiver_address = (''127.0.0.1'', 5000), connected = True\<rparr>,
         gaze_coordinates = (Fin 640, Fin 360)\<rparr>
        \<lparr>img_width = 1920, img_height = 1080\<rparr> [] (- 1)) = Returned
   \<and> filter is_gaze_marker (fst (eyeware_handle_video_stream
        \<lparr>frontend = \<lparr>video_receiver_address = (''127.0.0.1'', 5000), connected = True\<rparr>,
         gaze_coordinates = (Fin 640, Fin 360)\<rparr>
        \<lparr>img_width = 1920, img_height = 1080\<rparr> [] (- 1))) =
       [Circle (320, 180) 5 [0, 250, 50] 2, Circle (320, 180) 20 [250, 0, 0, 64] 2]"
proof -
  have h1: "gaze_coordinates
      \<lparr>frontend = \<lparr>video_receiver_address = (''127.0.0.1'', 5000), connected = True\<rparr>,
       gaze_coordinates = (Fin 640, Fin 360)\<rparr> = (Fin 640, Fin 360)" by simp
  have h2: "\<bar>640 :: rat\<bar> < 2 ^ 1024" by simp
  have h3: "\<bar>360 :: rat\<bar> < 2 ^ 1024" by simp
  have h4: "\<bar>640 :: rat\<bar> \<le> 2 ^ 31" "\<bar>360 :: rat\<bar> \<le> 2 ^ 31" by simp_all
  obtain px py where p:
      "py_int (float_mul (float_div (Fin 640) 1280) 640) = Inr px"
      "py_int (float_mul (float_div (Fin 360) 720) 360) = Inr py"
      "if in_c_int px \<and> in_c_int py then
         snd (eyeware_handle_video_stream
            \<lparr>frontend = \<lparr>video_receiver_address = (''127.0.0.1'', 5000), connected = True\<rparr>,
             gaze_coordinates = (Fin 640, Fin 360)\<rparr>
            \<lparr>img_width = 1920, img_height = 1080\<rparr> [] (- 1)) = Returned
         \<and> filter is_gaze_marker (fst (eyeware_handle_video_stream
            \<lparr>frontend = \<lparr>video_receiver_address = (''127.0.0.1'', 5000), connected = True\<rparr>,
             gaze_coordinates = (Fin 640, Fin 360)\<rparr>
            \<lparr>img_width = 1920, img_height = 1080\<rparr> [] (- 1))) =
           [Circle (px, py) 5 [0, 250, 50] 2, Circle (px, py) 20 [250, 0, 0, 64] 2]
         \<and> filter is_gaze_marker (fst (eyeware_handle_video_stream
            \<lparr>frontend = \<lparr>video_receiver_address = (''127.0.0.1'', 5000), connected = True\<rparr>,
             gaze_coordinates = (Fin 640, Fin 360)\<rparr>
            \<lparr>img_width = 1920, img_height = 1080\<rparr> [] (- 1))) =
           [Circle (px, py) 5 [0, 250, 50] 2, Circle (px, py) 20 [250, 0, 0, 64] 2]
       else
         snd (eyeware_handle_video_stream
            \<lparr>frontend = \<lparr>video_receiver_address = (''127.0.0.1'', 5000), connected = True\<rparr>,
             gaze_coordinates = (Fin 640, Fin 360)\<rparr>
            \<lparr>img_width = 1920, img_height = 1080\<rparr> [] (- 1)) = Raised Cv2_error
         \<and> filter is_gaze_marker (fst (eyeware_handle_video_stream
            \<lparr>frontend = \<lparr>video_receiver_address = (''127.0.0.1'', 5000), connected = True\<rparr>,
             gaze_coordinates = (Fin 640, Fin 360)\<rparr>
            \<lparr>img_width = 1920, img_height = 1080\<rparr> [] (- 1))) = []
         \<and> Imshow ''preview'' \<notin> set (fst (eyeware_handle_video_stream
            \<lparr>frontend = \<lparr>video_receiver_address = (''127.0.0.1'', 5000), connected = True\<rparr>,
             gaze_coordinates = (Fin 640, Fin 360)\<rparr>
            \<lparr>img_width = 1920, img_height = 1080\<rparr> [] (- 1)))"
    using marker_position[OF h1 h2 h3, of "\<lparr>img_width = 1920, img_height = 1080\<rparr>" "[]" "- 1"
        "\<lparr>img_width = 1920, img_height = 1080\<rparr>" "[]" "- 1"]
    by blast
  have "px = 320" using p(1) by (simp only: rescale_640 sum.inject)
  moreover have "py = 180" using p(2) by (simp only: rescale_360 sum.inject)
  ultimately show ?thesis using p(3) h2 h3 h4 in_c_int_small by simp
qed

text \<open>
  The marker is not always at the halved and truncated coordinates, and not every pair
  without NaN gets a marker: for the stored pair \<open>(0, 26.0)\<close> the handler draws the
  marker at \<open>(0, 12)\<close>, not at \<open>(0, 13)\<close>; for \<open>(inf, 26.0)\<close> the call \<open>int(inf)\<close>
  raises OverflowError after the coordinate text is drawn, and no marker is drawn; for
  \<open>(4294967296.0, 360.0)\<close> the rescaled point is \<open>(2147483648, 180)\<close> and the first
  \<open>cv2.circle\<close> raises.
\<close>

theorem marker_not_exactly_halved:
  "fixed_gaze_coords (Fin 0, Fin 26) \<noteq> Inr (trunc (0 / 2), trunc (26 / 2))
   \<and> fixed_gaze_coords (Fin 0, Fin 26) = Inr (0, 12)
   \<and> (trunc (0 / 2), trunc (26 / 2)) = (0, 13)
   \<and> eyeware_handle_video_stream
        \<lparr>frontend = \<lparr>video_receiver_address = (''127.0.0.1'', 5000), connected = True\<rparr>,
         gaze_coordinates = (Fin 0, Fin 26)\<rparr>
        \<lparr>img_width = 1280, img_height = 720\<rparr> [] (- 1) =
       ([Put_text (Gaze_text (Fin 0) (Fin 26)) (50, 50) (1 / 2) [0, 0, 255] 2 True,
         Circle (0, 12) 5 [0, 250, 50] 2,
         Circle (0, 12) 20 [250, 0, 0, 64] 2,
         Imshow ''preview''], Returned)
   \<and> \<not> isnan PInf \<and> \<not> isnan (Fin 26)
   \<and> eyeware_handle_video_stream
        \<lparr>frontend = \<lparr>video_receiver_address = (''127.0.0.1'', 5000), connected = True\<rparr>,
         gaze_coordinates = (PInf, Fin 26)\<rparr>
        \<lparr>img_width = 1280, img_height = 720\<rparr> [] (- 1) =
       ([Put_text (Gaze_text PInf (Fin 26)) (50, 50) (1 / 2) [0, 0, 255] 2 True],
        Raised OverflowError)
   \<and> \<not> isnan (Fin 4294967296) \<and> \<not> isnan (Fin 360)
   \<and> eyeware_handle_video_stream
        \<lparr>frontend = \<lparr>video_receiver_address = (''127.0.0.1'', 5000), connected = True\<rparr>,
         gaze_coordinates = (Fin 4294967296, Fin 360)\<rparr>
        \<lparr>img_width = 1280, img_height = 720\<rparr> [] (- 1) =
       ([Put_text (Gaze_text (Fin 4294967296) (Fin 360)) (50, 50) (1 / 2) [0, 0, 255] 2 True],
        Raised Cv2_error)"
  by (simp add: eyeware_handle_video_stream_def fixed_gaze_coords_0_26 fixed_gaze_coords_PInf
        fixed_gaze_coords_2_32 in_c_int_small not_in_c_int_2_31
        trunc_def q_pressed_def eyeware_TEXT_ORG_def eyeware_FONT_SCALE_def
        eyeware_TEXT_COLOR_def eyeware_TEXT_THICKNESS_def
        eyeware_MARKER_SIZE_def eyeware_MARKER_COLOR_def eyeware_SECONDARY_MARKER_SIZE_def
        eyeware_SECONDARY_MARKER_COLOR_def)

text \<open>
  C3 (amended). In src/eyeware.py, for every received frame whose stored gaze coordinates
  \<open>(x, y)\<close> are finite doubles, the rescaled gaze point \<open>fixed_gaze_coords\<close>, that is
  \<open>(int(x/1280*640), int(y/720*360))\<close>, exists; when both its coordinates fit a C int,
  which is so whenever \<open>x\<close> and \<open>y\<close> are at most \<open>2^31\<close> in magnitude, the frame handler
  draws the coordinate text and then the two marker circles, both centred at that point,
  immediately before it displays the frame, and displays nothing earlier.
\<close>

theorem marker_drawn_before_display:
  assumes "gaze_coordinates self = (Fin qx, Fin qy)"
    and "\<bar>qx\<bar> < 2 ^ 1024" and "\<bar>qy\<bar> < 2 ^ 1024"
  shows "\<exists>c. fixed_gaze_coords (Fin qx, Fin qy) = Inr c
         \<and> (in_c_int (fst c) \<and> in_c_int (snd c) \<longrightarrow>
              (\<exists>pre post.
                 fst (eyeware_handle_video_stream self frame objects key) =
                   pre @ [Put_text (Gaze_text (Fin qx) (Fin qy)) (50, 50) (1 / 2) [0, 0, 255] 2 True,
                          Circle c 5 [0, 250, 50] 2,
                          Circle c 20 [250, 0, 0, 64] 2,
                          Imshow ''preview''] @ post
               \<and> Imshow ''preview'' \<notin> set pre))
         \<and> (\<bar>qx\<bar> \<le> 2 ^ 31 \<and> \<bar>qy\<bar> \<le> 2 ^ 31 \<longrightarrow> in_c_int (fst c) \<and> in_c_int (snd c))"
proof -
  obtain px py where p: "fixed_gaze_coords (Fin qx, Fin qy) = Inr (px, py)"
    using fixed_gaze_coords_finite[OF assms(2,3)] by blast
  have n: "\<not> isnan (fst (gaze_coordinates self))" "\<not> isnan (snd (gaze_coordinates self))"
    using assms(1) by simp_all
  have f: "fixed_gaze_coords (gaze_coordinates self) = Inr (px, py)"
    using assms(1) p by simp
  have range: "\<bar>qx\<bar> \<le> 2 ^ 31 \<and> \<bar>qy\<bar> \<le> 2 ^ 31 \<longrightarrow> in_c_int px \<and> in_c_int py"
    using fixed_gaze_coords_in_c_int[OF _ _ p] by blast
  have drawn: "in_c_int px \<and> in_c_int py \<longrightarrow>
      (\<exists>pre post.
         fst (eyeware_handle_video_stream self frame objects key) =
           pre @ [Put_text (Gaze_text (Fin qx) (Fin qy)) (50, 50) (1 / 2) [0, 0, 255] 2 True,
                  Circle (px, py) 5 [0, 250, 50] 2,
                  Circle (px, py) 20 [250, 0, 0, 64] 2,
                  Imshow ''preview''] @ post
       \<and> Imshow ''preview'' \<notin> set pre)"
  proof
    assume r: "in_c_int px \<and> in_c_int py"
    have "fst (eyeware_handle_video_stream self frame objects key) =
            fst (eyeware_loop (Fin qx, Fin qy) False objects)
            @ [Put_text (Gaze_text (Fin qx) (Fin qy)) (50, 50) (1 / 2) [0, 0, 255] 2 True,
               Circle (px, py) 5 [0, 250, 50] 2,
               Circle (px, py) 20 [250, 0, 0, 64] 2,
               Imshow ''preview'']
            @ (if q_pressed key then eyeware_close self else [])"
      using handler_marker_drawn[OF n f, of frame objects key] r assms(1) by simp
    then show "\<exists>pre post.
         fst (eyeware_handle_video_stream self frame objects key) =
           pre @ [Put_text (Gaze_text (Fin qx) (Fin qy)) (50, 50) (1 / 2) [0, 0, 255] 2 True,
                  Circle (px, py) 5 [0, 250, 50] 2,
                  Circle (px, py) 20 [250, 0, 0, 64] 2,
                  Imshow ''preview''] @ post
       \<and> Imshow ''preview'' \<notin> set pre"
      using imshow_not_in_loop by blast
  qed
  show ?thesis using p drawn range by auto
qed

text \<open>
  An instance: with the stored pair \<open>(640.0, 360.0)\<close> the circles are centred at
  \<open>(320, 180)\<close> and are followed by the display of the frame.
\<close>

theorem marker_drawn_before_display_witness:
  "gaze_coordinates
      \<lparr>frontend = \<lparr>video_receiver_address = (''127.0.0.1'', 5000), connected = True\<rparr>,
       gaze_coordinates = (Fin 640, Fin 360)\<rparr> = (Fin 640, Fin 360)
   \<and> \<bar>640 :: rat\<bar> < 2 ^ 1024 \<and> \<bar>360 :: rat\<bar> < 2 ^ 1024
   \<and> \<bar>640 :: rat\<bar> \<le> 2 ^ 31 \<and> \<bar>360 :: rat\<bar> \<le> 2 ^ 31
   \<and> in_c_int (fst (320, 180)) \<and> in_c_int (snd (320 :: int, 180))
   \<and> (\<exists>pre post. fst (eyeware_handle_video_stream
        \<lparr>frontend = \<lparr>video_receiver_address = (''127.0.0.1'', 5000), connected = True\<rparr>,
         gaze_coordinates = (Fin 640, Fin 360)\<rparr>
        \<lparr>img_width = 1280, img_height = 720\<rparr> [] (- 1)) =
       pre @ [Put_text (Gaze_text (Fin 640) (Fin 360)) (50, 50) (1 / 2) [0, 0, 255] 2 True,
        Circle (320, 180) 5 [0, 250, 50] 2,
        Circle (320, 180) 20 [250, 0, 0, 64] 2,
        Imshow ''preview''] @ post)"
proof -
  have h1: "gaze_coordinates
      \<lparr>frontend = \<lparr>video_receiver_address = (''127.0.0.1'', 5000), connected = True\<rparr>,
       gaze_coordinates = (Fin 640, Fin 360)\<rparr> = (Fin 640, Fin 360)" by simp
  have h2: "\<bar>640 :: rat\<bar> < 2 ^ 1024" by simp
  have h3: "\<bar>360 :: rat\<bar> < 2 ^ 1024" by simp
  have h4: "\<bar>640 :: rat\<bar> \<le> 2 ^ 31" "\<bar>360 :: rat\<bar> \<le> 2 ^ 31" by simp_all
  have h5: "in_c_int (fst (320, 180))" "in_c_int (snd (320 :: int, 180))"
    by (simp_all add: in_c_int_def)
  have "\<exists>pre post. fst (eyeware_handle_video_stream
        \<lparr>frontend = \<lparr>video_receiver_address = (''127.0.0.1'', 5000), connected = True\<rparr>,
         gaze_coordinates = (Fin 640, Fin 360)\<rparr>
        \<lparr>img_width = 1280, img_height = 720\<rparr> [] (- 1)) =
       pre @ [Put_text (Gaze_text (Fin 640) (Fin 360)) (50, 50) (1 / 2) [0, 0, 255] 2 True,
        Circle (320, 180) 5 [0, 250, 50] 2,
        Circle (320, 180) 20 [250, 0, 0, 64] 2,
        Imshow ''preview''] @ post"
    using h5 marker_drawn_before_display[OF h1 h2 h3,
        of "\<lparr>img_width = 1280, img_height = 720\<rparr>" "[]" "- 1"]
    unfolding fixed_gaze_coords_640_360 by (simp only: simp_thms sum.inject) blast
  then show ?thesis using h1 h2 h3 h4 h5 by blast
qed

text \<open>
  Not every frame gets a marker at the gaze point: the frame handler of
  src/eyetracking/pyside.py draws the coordinate text only and no circle, and the frame
  handler of src/eyeware.py draws no marker when a stored coordinate is NaN or infinite
  or when the rescaled point does not fit a C int. (The method \<open>_draw_gaze_marker\<close> is
  \<open>pass\<close> in both files and is never called.)
\<close>

theorem pyside_draws_no_marker:
  "pyside_handle_video_stream
      \<lparr>frontend = \<lparr>video_receiver_address = (''127.0.0.1'', 5000), connected = True\<rparr>,
       gaze_coordinates = (Fin 640, Fin 360)\<rparr>
      \<lparr>img_width = 1280, img_height = 720\<rparr> (- 1) =
     ([Put_text (Gaze_text (Fin 640) (Fin 360)) (50, 50) 1 [0, 0, 255] 2 True,
       Imshow ''preview'',
       Print (Gaze_coordinates (Fin 640) (Fin 360))], Returned)
   \<and> filter is_circle (fst (pyside_handle_video_stream
      \<lparr>frontend = \<lparr>video_receiver_address = (''127.0.0.1'', 5000), connected = True\<rparr>,
       gaze_coordinates = (Fin 640, Fin 360)\<rparr>
      \<lparr>img_width = 1280, img_height = 720\<rparr> (- 1))) = []
   \<and> eyeware_handle_video_stream
      \<lparr>frontend = \<lparr>video_receiver_address = (''127.0.0.1'', 5000), connected = True\<rparr>,
       gaze_coordinates = (NaN, Fin 360)\<rparr>
      \<lparr>img_width = 1280, img_height = 720\<rparr> [] (- 1) =
     ([Put_text (Gaze_text NaN (Fin 360)) (50, 50) (1 / 2) [0, 0, 255] 2 True,
       Imshow ''preview''], Returned)
   \<and> eyeware_handle_video_stream
      \<lparr>frontend = \<lparr>video_receiver_address = (''127.0.0.1'', 5000), connected = True\<rparr>,
       gaze_coordinates = (PInf, Fin 360)\<rparr>
      \<lparr>img_width = 1280, img_height = 720\<rparr> [] (- 1) =
     ([Put_text (Gaze_text PInf (Fin 360)) (50, 50) (1 / 2) [0, 0, 255] 2 True],
      Raised OverflowError)
   \<and> eyeware_handle_video_stream
      \<lparr>frontend = \<lparr>video_receiver_address = (''127.0.0.1'', 5000), connected = True\<rparr>,
       gaze_coordinates = (Fin 4294967296, Fin 360)\<rparr>
      \<lparr>img_width = 1280, img_height = 720\<rparr> [] (- 1) =
     ([Put_text (Gaze_text (Fin 4294967296) (Fin 360)) (50, 50) (1 / 2) [0, 0, 255] 2 True],
      Raised Cv2_error)"
  by (simp add: pyside_handle_video_stream_def eyeware_handle_video_stream_def q_pressed_def
        fixed_gaze_coords_PInf fixed_gaze_coords_2_32 not_in_c_int_2_31
        pyside_TEXT_ORG_def pyside_FONT_SCALE_def pyside_TEXT_COLOR_def pyside_TEXT_THICKNESS_def
        eyeware_TEXT_ORG_def eyeware_FONT_SCALE_def eyeware_TEXT_COLOR_def
        eyeware_TEXT_THICKNESS_def)

section \<open>The audio alert of src/eyeware.py\<close>

text \<open>
  No handler starts the sound process and no handler writes the module-level
  \<open>play_sound\<close>, whatever the libraries deliver.
\<close>

lemma process_start_not_in_loop: "Process_start \<notin> set (fst (eyeware_loop gaze ps objects))"
proof (induction objects arbitrary: ps)
  case Nil
  then show ?case by simp
next
  case (Cons item items)
  obtain i p where item: "item = (i, p)" by (cases item)
  show ?case using Cons.IH
    by (simp add: item split_beta eyeware_loop_body_def Let_def)
qed

lemma process_start_not_in_deliver: "Process_start \<notin> set (snd (eyeware_deliver st e))"
proof -
  obtain g self where st: "st = (g, self)" by (cases st)
  show ?thesis
  proof (cases e)
    case (Connect_response err)
    then show ?thesis
      by (simp add: st split_beta eyeware_handle_connect_response_def)
  next
    case (Camera_start_response err)
    then show ?thesis
      by (simp add: st eyeware_handle_camera_start_response_def eyeware_shutdown_def)
  next
    case (Gaze_in_image ts x y args)
    then show ?thesis by (simp add: st)
  next
    case (Video_frame f)
    then show ?thesis
      by (simp add: st handler_trace_cases process_start_not_in_loop eyeware_close_def
            eyeware_shutdown_def split: sum.splits)
  qed
qed

lemma no_alert_in_any_run:
  "Process_start \<notin> set (snd (eyeware_run st evs))
   \<and> play_sound (fst (fst (eyeware_run st evs))) = play_sound (fst st)"
proof (induction evs arbitrary: st)
  case Nil
  then show ?case by simp
next
  case (Cons e es)
  have "fst (fst (eyeware_deliver st e)) = fst st"
    by (cases st; cases e) (simp_all add: split_beta)
  then show ?case using Cons.IH[of "fst (eyeware_deliver st e)"] process_start_not_in_deliver[of st e]
    by (simp add: split_beta)
qed

text \<open>
  C2. A frame with a close tracked person that is neither marked seen nor gazed at does
  not trigger the audio alert. On the call of the frame handler below, the handler draws
  the \<open>(255, 0, 0)\<close> rectangle and its local \<open>play_sound\<close> becomes True, but it starts no
  sound process, and the delivery of the frame leaves the module-level \<open>play_sound\<close>
  False. With \<open>play_sound\<close> False, \<open>play_warning_sound\<close> starts nothing and raises
  AttributeError; its only call is the one in \<open>main\<close>, which therefore ends with that
  exception before it prints.
\<close>

theorem unseen_close_person_no_alert:
  "(let person = \<lparr>centroid = (60, 120), rect_1 = (10, 20, 110, 220), is_seen = False,
                   is_person_seen = (\<lambda>g. False), is_person_close = True\<rparr>;
        viewer = \<lparr>frontend = \<lparr>video_receiver_address = (''127.0.0.1'', 5000), connected = True\<rparr>,
                  gaze_coordinates = (Fin 640, Fin 360)\<rparr>;
        drawn = [Put_text (ID_text 0) (50, 110) (1 / 2) [0, 255, 0] 2 False,
                 Circle (60, 120) 4 [0, 255, 0] (- 1),
                 Call_is_person_seen 0 (Fin 640, Fin 360),
                 Rectangle (10, 20) (110, 220) [255, 0, 0] 2,
                 Put_text (Gaze_text (Fin 640) (Fin 360)) (50, 50) (1 / 2) [0, 0, 255] 2 True,
                 Circle (320, 180) 5 [0, 250, 50] 2,
                 Circle (320, 180) 20 [250, 0, 0, 64] 2,
                 Imshow ''preview'']
    in eyeware_handle_video_stream viewer \<lparr>img_width = 1280, img_height = 720\<rparr>
         [(0, person)] (- 1) = (drawn, Returned)
     \<and> Process_start \<notin> set drawn
     \<and> snd (eyeware_loop (Fin 640, Fin 360) False [(0, person)]) = True
     \<and> eyeware_deliver (\<lparr>play_sound = False\<rparr>, viewer)
          (Video_frame (\<lparr>img_width = 1280, img_height = 720\<rparr>, [(0, person)], - 1)) =
         ((\<lparr>play_sound = False\<rparr>, viewer), drawn)
     \<and> play_warning_sound \<lparr>play_sound = False\<rparr> =
         ([Process_create ''/sound/soundeffect.mp3''], Raised AttributeError)
     \<and> snd (eyeware_main (''127.0.0.1'', 5000)) =
         ([VideoReceiver, Add_frame_callback Handle_video_stream, Video_receiver_start,
           FrontendApi, Register_stream_handler GAZE_IN_IMAGE Handle_gaze_in_image_stream,
           Api_start Handle_connect_response, CentroidTracker,
           Process_create ''/sound/soundeffect.mp3''], Raised AttributeError))"
  by (simp add: Let_def eyeware_main_def eyeware_GazeViewer_init_def eyeware_Frontend_init_def
        play_warning_sound_def eyeware_handle_video_stream_def eyeware_loop_body_def
        rect_top_left_def rect_bottom_right_def fixed_gaze_coords_640_360 in_c_int_small
        q_pressed_def eyeware_TEXT_ORG_def eyeware_FONT_SCALE_def eyeware_TEXT_COLOR_def
        eyeware_TEXT_THICKNESS_def eyeware_MARKER_SIZE_def eyeware_MARKER_COLOR_def
        eyeware_SECONDARY_MARKER_SIZE_def eyeware_SECONDARY_MARKER_COLOR_def)

end
